theory Spec2Isabelle
  imports Complex_Main "HOL-Library.Word" "HOL-Library.Sublist"
begin

section \<open>JavaScript strings\<close>

text \<open>
  A JavaScript string is a sequence of UTF-16 code units; \<open>length\<close> counts code units.
  ASCII literals of the source are written through \<open>ascii\<close>.
\<close>

type_synonym code_unit = "16 word"
type_synonym jsstring = "code_unit list"

definition ascii :: "string \<Rightarrow> jsstring" where
  "ascii s = map (\<lambda>c. of_nat (of_char c)) s"

text \<open>
  \<open>String.prototype.trim\<close> strips WhiteSpace and LineTerminator code units (ECMAScript:
  TAB, VT, FF, SP, NBSP, ZWNBSP, the Unicode space separators, LF, CR, LS, PS) from both ends.
\<close>

definition isWhiteSpace :: "code_unit \<Rightarrow> bool" where
  "isWhiteSpace c \<longleftrightarrow>
     c \<in> {0x09, 0x0A, 0x0B, 0x0C, 0x0D, 0x20, 0xA0, 0x1680,
          0x2028, 0x2029, 0x202F, 0x205F, 0x3000, 0xFEFF}
     \<or> (0x2000 \<le> c \<and> c \<le> 0x200A)"

definition trim :: "jsstring \<Rightarrow> jsstring" where
  "trim s = rev (dropWhile isWhiteSpace (rev (dropWhile isWhiteSpace s)))"

text \<open>A string is truthy exactly when it is not empty.\<close>

definition truthy :: "jsstring \<Rightarrow> bool" where
  "truthy s \<longleftrightarrow> s \<noteq> []"

text \<open>\<open>String.prototype.includes\<close>: the argument occurs as a contiguous run.\<close>

fun includes_str :: "jsstring \<Rightarrow> jsstring \<Rightarrow> bool" where
  "includes_str [] sub = (sub = [])"
| "includes_str (c # cs) sub = (prefix sub (c # cs) \<or> includes_str cs sub)"

text \<open>
  Number-to-string conversion of an integer (template literals apply it to \<open>Date.now()\<close>,
  whose range stays far below the exponent notation): decimal digits, with a minus sign.
\<close>

definition digit :: "nat \<Rightarrow> code_unit" where
  "digit d = of_nat (48 + d)"

function dec_nat :: "nat \<Rightarrow> jsstring" where
  "dec_nat n = (if n < 10 then [digit n] else dec_nat (n div 10) @ [digit (n mod 10)])"
  by pat_completeness auto
termination
  by (relation "measure (\<lambda>n. n)") auto

declare dec_nat.simps [simp del]

definition dec_int :: "int \<Rightarrow> jsstring" where
  "dec_int i = (if i < 0 then 0x2D # dec_nat (nat (- i)) else dec_nat (nat i))"

section \<open>Data model (services/types.ts)\<close>

datatype message_type = User | Assistant

record ContextDocument =
  question :: jsstring
  answer :: jsstring
  category :: "jsstring option"
  similarity_score :: real

text \<open>The field \<open>id\<close> of the source is \<open>id_msg\<close> here; optional fields are options.\<close>

record ChatMessage =
  id_msg :: int
  message_type :: message_type
  content :: jsstring
  timestamp :: jsstring
  evaluation_score :: "real option"
  retrieved_context :: "ContextDocument list option"

record ChatResponse =
  message_id :: int
  resp_session_id :: jsstring
  response :: jsstring
  resp_evaluation_score :: "real option"
  resp_retrieved_context :: "ContextDocument list"
  response_time :: real
  resp_timestamp :: jsstring
  is_medical :: bool
  query_type :: "jsstring option"

record ChatSession =
  session_id :: jsstring
  created_at :: jsstring
  message_count :: int
  is_active :: bool

record ChatHistoryResponse =
  hist_session_id :: jsstring
  hist_messages :: "ChatMessage list"
  total_count :: int
  has_more :: bool

record SendMessageRequest =
  req_message :: jsstring
  req_session_id :: "jsstring option"

section \<open>The remote service (services/api.ts)\<close>

text \<open>
  Each \<open>ApiService\<close> method sends one request; the requests sent are kept, oldest first, in
  the field \<open>network\<close> of the hook states below. \<open>getChatHistory\<close> and \<open>getChatSessions\<close>
  carry their \<open>limit\<close> and \<open>offset\<close>.
\<close>

datatype api_call =
  PostChatMessage SendMessageRequest
| GetChatHistory jsstring int int
| GetChatSessions int int
| DeleteChatSession jsstring

text \<open>
  What an awaited call can throw: an \<open>Error\<close> object with its message (the response
  interceptor always rethrows one), or any other value.
\<close>

datatype thrown = Error jsstring | NonError

text \<open>A reading of the clock: \<open>Date.now()\<close> and \<open>new Date().toISOString()\<close>.\<close>

record clock =
  now :: int
  toISOString :: jsstring

section \<open>utils/helpers.ts\<close>

text \<open>
  \<open>generateSessionId\<close>: the suffix \<open>Math.random().toString(36).substring(2, 9)\<close> is a
  parameter, \<open>rnd\<close>.
\<close>

definition generateSessionId :: "int \<Rightarrow> jsstring \<Rightarrow> jsstring" where
  "generateSessionId t rnd = ascii ''session-'' @ dec_int t @ ascii ''-'' @ rnd"

record validation =
  isValid :: bool
  val_error :: "jsstring option"

definition validateMessage :: "jsstring \<Rightarrow> validation" where
  "validateMessage message =
     (if \<not> truthy (trim message)
      then \<lparr>isValid = False, val_error = Some (ascii ''Message cannot be empty'')\<rparr>
      else if length message > 2000
      then \<lparr>isValid = False,
            val_error = Some (ascii ''Message is too long (max 2000 characters)'')\<rparr>
      else \<lparr>isValid = True, val_error = None\<rparr>)"

section \<open>hooks/useChat.ts\<close>

text \<open>
  The state of the hook: its four \<open>useState\<close> cells, the ref \<open>lastMessageRef\<close>, and the
  requests sent so far. An \<open>async\<close> operation runs in two steps: up to its \<open>await\<close>
  (\<open>_start\<close>), and from the settled call to its end (\<open>_settle\<close>). A settle step returns
  the exception that leaves the operation, if any, with the state.
\<close>

record useChat_state =
  messages :: "ChatMessage list"
  currentSessionId :: jsstring
  isLoading :: bool
  error :: "jsstring option"
  lastMessageRef :: jsstring
  network :: "api_call list"

text \<open>
  \<open>sendMessage\<close> is a \<open>useCallback\<close> with dependencies \<open>currentSessionId\<close> and
  \<open>isLoading\<close>: the function a render creates reads the values of that render, not the
  store's, until the next render replaces it. \<open>render s\<close> is what the callbacks created by
  the render of the state \<open>s\<close> have captured. State setters and the ref act on the store.
\<close>

record captured =
  captured_isLoading :: bool
  captured_currentSessionId :: jsstring

definition render :: "useChat_state \<Rightarrow> captured" where
  "render s = \<lparr>captured_isLoading = isLoading s, captured_currentSessionId = currentSessionId s\<rparr>"

definition error_marker :: jsstring where
  "error_marker = 0x274C # ascii '' Error:''"

definition userMessage :: "clock \<Rightarrow> jsstring \<Rightarrow> ChatMessage" where
  "userMessage c message =
     \<lparr>id_msg = now c, message_type = User, content = message, timestamp = toISOString c,
      evaluation_score = None, retrieved_context = None\<rparr>"

definition assistantMessage :: "ChatResponse \<Rightarrow> ChatMessage" where
  "assistantMessage r =
     \<lparr>id_msg = message_id r, message_type = Assistant, content = response r,
      timestamp = resp_timestamp r, evaluation_score = resp_evaluation_score r,
      retrieved_context = Some (resp_retrieved_context r)\<rparr>"

definition errorMessage_of :: "jsstring \<Rightarrow> thrown \<Rightarrow> jsstring" where
  "errorMessage_of fallback e = (case e of Error m \<Rightarrow> m | NonError \<Rightarrow> fallback)"

definition errorMessageObj :: "clock \<Rightarrow> jsstring \<Rightarrow> ChatMessage" where
  "errorMessageObj c errorMessage =
     \<lparr>id_msg = now c + 1, message_type = Assistant,
      content = error_marker @ ascii '' '' @ errorMessage @ ascii ''. Please try again.'',
      timestamp = toISOString c, evaluation_score = None, retrieved_context = None\<rparr>"

definition sendMessage_accepts :: "captured \<Rightarrow> jsstring \<Rightarrow> bool" where
  "sendMessage_accepts k message \<longleftrightarrow> \<not> (captured_isLoading k \<or> \<not> truthy (trim message))"

definition sendMessage_start :: "captured \<Rightarrow> clock \<Rightarrow> jsstring \<Rightarrow> useChat_state \<Rightarrow> useChat_state" where
  "sendMessage_start k c message s =
     (if captured_isLoading k \<or> \<not> truthy (trim message) then s
      else s\<lparr>lastMessageRef := message, isLoading := True, error := None,
             messages := messages s @ [userMessage c message],
             network := network s @
               [PostChatMessage \<lparr>req_message = message,
                                 req_session_id = Some (captured_currentSessionId k)\<rparr>]\<rparr>)"

definition sendMessage_try :: "thrown + ChatResponse \<Rightarrow> useChat_state \<Rightarrow> thrown option \<times> useChat_state" where
  "sendMessage_try outcome s =
     (case outcome of
        Inl e \<Rightarrow> (Some e, s)
      | Inr r \<Rightarrow> (None, s\<lparr>messages := messages s @ [assistantMessage r]\<rparr>))"

definition sendMessage_catch :: "clock \<Rightarrow> thrown \<Rightarrow> useChat_state \<Rightarrow> thrown option \<times> useChat_state" where
  "sendMessage_catch c e s =
     (let errorMessage = errorMessage_of (ascii ''Failed to send message'') e
      in (None, s\<lparr>error := Some errorMessage,
                  messages := messages s @ [errorMessageObj c errorMessage]\<rparr>))"

definition sendMessage_settle :: "clock \<Rightarrow> thrown + ChatResponse \<Rightarrow> useChat_state \<Rightarrow> thrown option \<times> useChat_state" where
  "sendMessage_settle c outcome s =
     (let (x, s1) = sendMessage_try outcome s;
          (y, s2) = (case x of Some e \<Rightarrow> sendMessage_catch c e s1 | None \<Rightarrow> (None, s1))
      in (y, s2\<lparr>isLoading := False\<rparr>))"

text \<open>
  The whole of \<open>sendMessage\<close> with nothing else happening while the call is in flight:
  \<open>c1\<close> is the clock when the user turn is built, \<open>c2\<close> the clock in the catch block.
\<close>

definition sendMessage :: "captured \<Rightarrow> clock \<Rightarrow> clock \<Rightarrow> jsstring \<Rightarrow> thrown + ChatResponse \<Rightarrow> useChat_state \<Rightarrow> thrown option \<times> useChat_state" where
  "sendMessage k c1 c2 message outcome s =
     (if captured_isLoading k \<or> \<not> truthy (trim message) then (None, s)
      else sendMessage_settle c2 outcome (sendMessage_start k c1 message s))"

definition clearChat :: "useChat_state \<Rightarrow> useChat_state" where
  "clearChat s = s\<lparr>messages := [], error := None\<rparr>"

definition startNewChat :: "int \<Rightarrow> jsstring \<Rightarrow> useChat_state \<Rightarrow> useChat_state" where
  "startNewChat t rnd s =
     s\<lparr>messages := [], currentSessionId := generateSessionId t rnd, error := None\<rparr>"

definition loadSession_start :: "jsstring \<Rightarrow> useChat_state \<Rightarrow> useChat_state" where
  "loadSession_start sessionId s =
     s\<lparr>isLoading := True, error := None,
       network := network s @ [GetChatHistory sessionId 50 0]\<rparr>"

text \<open>
  After the \<open>await\<close>, \<open>loadSession\<close> calls its state setters one after the other. The
  calls are kept as a list, in the order of the source, and \<open>states_after\<close> gives the store
  after each of them; which of these states a render shows is up to React's batching.
\<close>

datatype useChat_setter =
  SetMessages "ChatMessage list"
| SetCurrentSessionId jsstring
| SetIsLoading bool
| SetError "jsstring option"

fun call_setter :: "useChat_setter \<Rightarrow> useChat_state \<Rightarrow> useChat_state" where
  "call_setter (SetMessages v) s = s\<lparr>messages := v\<rparr>"
| "call_setter (SetCurrentSessionId v) s = s\<lparr>currentSessionId := v\<rparr>"
| "call_setter (SetIsLoading v) s = s\<lparr>isLoading := v\<rparr>"
| "call_setter (SetError v) s = s\<lparr>error := v\<rparr>"

fun states_after :: "useChat_setter list \<Rightarrow> useChat_state \<Rightarrow> useChat_state list" where
  "states_after [] s = []"
| "states_after (c # cs) s = call_setter c s # states_after cs (call_setter c s)"

definition loadSession_try :: "jsstring \<Rightarrow> thrown + ChatHistoryResponse \<Rightarrow> thrown option \<times> useChat_setter list" where
  "loadSession_try sessionId outcome =
     (case outcome of
        Inl e \<Rightarrow> (Some e, [])
      | Inr history \<Rightarrow>
          (None, [SetMessages (hist_messages history), SetCurrentSessionId sessionId]))"

definition loadSession_catch :: "thrown \<Rightarrow> thrown option \<times> useChat_setter list" where
  "loadSession_catch e =
     (None, [SetError (Some (errorMessage_of (ascii ''Failed to load chat history'') e))])"

definition loadSession_calls :: "jsstring \<Rightarrow> thrown + ChatHistoryResponse \<Rightarrow> thrown option \<times> useChat_setter list" where
  "loadSession_calls sessionId outcome =
     (let (x, tried) = loadSession_try sessionId outcome;
          (y, caught) = (case x of Some e \<Rightarrow> loadSession_catch e | None \<Rightarrow> (None, []))
      in (y, tried @ caught @ [SetIsLoading False]))"

definition loadSession_settle :: "jsstring \<Rightarrow> thrown + ChatHistoryResponse \<Rightarrow> useChat_state \<Rightarrow> thrown option \<times> useChat_state" where
  "loadSession_settle sessionId outcome s =
     (let (y, calls) = loadSession_calls sessionId outcome
      in (y, fold call_setter calls s))"

definition loadSession :: "jsstring \<Rightarrow> thrown + ChatHistoryResponse \<Rightarrow> useChat_state \<Rightarrow> thrown option \<times> useChat_state" where
  "loadSession sessionId outcome s =
     loadSession_settle sessionId outcome (loadSession_start sessionId s)"

text \<open>The test of the filter in \<open>retryLastMessage\<close>, which keeps the turns that fail it.\<close>

definition isErrorTurn :: "ChatMessage \<Rightarrow> bool" where
  "isErrorTurn msg \<longleftrightarrow> message_type msg = Assistant \<and> includes_str (content msg) error_marker"

definition removeErrorTurns :: "useChat_state \<Rightarrow> useChat_state" where
  "removeErrorTurns s = s\<lparr>messages := filter (\<lambda>msg. \<not> isErrorTurn msg) (messages s)\<rparr>"

text \<open>
  \<open>retryLastMessage\<close> depends on \<open>sendMessage\<close>, so it calls the \<open>sendMessage\<close> of its
  own render.
\<close>

definition retryLastMessage :: "captured \<Rightarrow> clock \<Rightarrow> clock \<Rightarrow> thrown + ChatResponse \<Rightarrow> useChat_state \<Rightarrow> thrown option \<times> useChat_state" where
  "retryLastMessage k c1 c2 outcome s =
     (if truthy (lastMessageRef s)
      then sendMessage k c1 c2 (lastMessageRef s) outcome (removeErrorTurns s)
      else (None, s))"

section \<open>hooks/useChatHistory.ts\<close>

record useChatHistory_state =
  sessions :: "ChatSession list"
  loading :: bool
  history_error :: "jsstring option"
  history_network :: "api_call list"

definition deleteSession_start :: "jsstring \<Rightarrow> useChatHistory_state \<Rightarrow> useChatHistory_state" where
  "deleteSession_start sessionId s =
     s\<lparr>history_network := history_network s @ [DeleteChatSession sessionId]\<rparr>"

definition deleteSession_try :: "jsstring \<Rightarrow> thrown + unit \<Rightarrow> useChatHistory_state \<Rightarrow> thrown option \<times> useChatHistory_state" where
  "deleteSession_try sessionId outcome s =
     (case outcome of
        Inl e \<Rightarrow> (Some e, s)
      | Inr _ \<Rightarrow>
          (None, s\<lparr>sessions := filter (\<lambda>session. session_id session \<noteq> sessionId) (sessions s)\<rparr>))"

definition deleteSession_catch :: "thrown \<Rightarrow> useChatHistory_state \<Rightarrow> thrown option \<times> useChatHistory_state" where
  "deleteSession_catch e s =
     (None, s\<lparr>history_error := Some (errorMessage_of (ascii ''Failed to delete session'') e)\<rparr>)"

definition deleteSession_settle :: "jsstring \<Rightarrow> thrown + unit \<Rightarrow> useChatHistory_state \<Rightarrow> thrown option \<times> useChatHistory_state" where
  "deleteSession_settle sessionId outcome s =
     (let (x, s1) = deleteSession_try sessionId outcome s
      in (case x of Some e \<Rightarrow> deleteSession_catch e s1 | None \<Rightarrow> (None, s1)))"

definition deleteSession :: "jsstring \<Rightarrow> thrown + unit \<Rightarrow> useChatHistory_state \<Rightarrow> thrown option \<times> useChatHistory_state" where
  "deleteSession sessionId outcome s =
     deleteSession_settle sessionId outcome (deleteSession_start sessionId s)"

section \<open>components/chat-component.tsx: MessageInput\<close>

text \<open>
  The state of the input form: the text typed and the validation error shown under it.
  \<open>handleSubmit\<close> calls the prop \<open>onSendMessage\<close>, here a function on the state \<open>w\<close> of
  whoever receives the message, only when \<open>validateMessage\<close> accepts the text.
\<close>

record MessageInput_state =
  input_message :: jsstring
  input_error :: "jsstring option"

definition handleSubmit :: "(jsstring \<Rightarrow> 'w \<Rightarrow> 'w) \<Rightarrow> MessageInput_state \<times> 'w \<Rightarrow> MessageInput_state \<times> 'w" where
  "handleSubmit onSendMessage iw =
     (let (i, w) = iw; v = validateMessage (input_message i)
      in if \<not> isValid v
         then (i\<lparr>input_error :=
                   Some (case val_error v of
                           Some e \<Rightarrow> if truthy e then e else ascii ''Invalid message''
                         | None \<Rightarrow> ascii ''Invalid message'')\<rparr>, w)
         else (i\<lparr>input_message := [], input_error := None\<rparr>,
               onSendMessage (input_message i) w))"

section \<open>hooks/useAutoScroll.ts\<close>

text \<open>
  The scroll metrics of the element behind \<open>elementRef\<close>, in pixels. \<open>scrollTo\<close> ends at the
  requested offset clamped to the scrollable range. Content of height \<open>h\<close> appended below
  the viewport makes \<open>scrollHeight\<close> grow by \<open>h\<close> and leaves \<open>scrollTop\<close> alone; the effect runs
  after React has committed that growth to the page.
\<close>

record element =
  scrollTop :: real
  scrollHeight :: real
  clientHeight :: real

definition scrollTo :: "real \<Rightarrow> element \<Rightarrow> element" where
  "scrollTo y e = e\<lparr>scrollTop := max 0 (min y (scrollHeight e - clientHeight e))\<rparr>"

definition useAutoScroll_effect :: "bool \<Rightarrow> element option \<Rightarrow> element option" where
  "useAutoScroll_effect enabled elementRef =
     (case elementRef of
        None \<Rightarrow> None
      | Some el \<Rightarrow>
          if enabled
          then (let maxScrollTop = scrollHeight el - clientHeight el
                in if scrollTop el > maxScrollTop - 100
                   then Some (scrollTo (scrollHeight el) el)
                   else Some el)
          else Some el)"

definition appended :: "real \<Rightarrow> element \<Rightarrow> element" where
  "appended h e = e\<lparr>scrollHeight := scrollHeight e + h\<rparr>"

text \<open>Distance of the viewport's lower edge from the end of the content.\<close>

definition fromBottom :: "element \<Rightarrow> real" where
  "fromBottom e = scrollHeight e - clientHeight e - scrollTop e"

section \<open>components/chat-component.tsx: ChatInterface\<close>

text \<open>
  The effect of \<open>ChatInterface\<close> that runs after every change of \<open>messages\<close> or
  \<open>isLoading\<close>. \<open>messagesEndRef\<close> is the empty element that closes the scrolled list; the
  model holds the offset of its upper edge in the content (\<open>None\<close> while the ref is not
  attached). \<open>scrollIntoView\<close> with its default alignment brings that edge to the top of
  the scrolling container, as far as the scroll range allows.
\<close>

definition scrollIntoView :: "real \<Rightarrow> element \<Rightarrow> element" where
  "scrollIntoView offsetTop container = scrollTo offsetTop container"

definition ChatInterface_scroll_effect :: "real option \<Rightarrow> element \<Rightarrow> element" where
  "ChatInterface_scroll_effect messagesEndRef container =
     (case messagesEndRef of
        None \<Rightarrow> container
      | Some offsetTop \<Rightarrow> scrollIntoView offsetTop container)"

section \<open>Concrete values\<close>

text \<open>
  The scenario of the specification: an idle store, the question "What is diabetes?", and
  the service's answer with \<open>message_id\<close> 1 and \<open>evaluation_score\<close> 0.87.
\<close>

definition idle_store :: useChat_state where
  "idle_store =
     \<lparr>messages = [], currentSessionId = ascii ''s1'', isLoading = False, error = None,
      lastMessageRef = [], network = []\<rparr>"

definition question1 :: jsstring where
  "question1 = ascii ''What is diabetes?''"

definition clock1 :: clock where
  "clock1 = \<lparr>now = 1000, toISOString = ascii ''T1''\<rparr>"

definition clock2 :: clock where
  "clock2 = \<lparr>now = 2000, toISOString = ascii ''T2''\<rparr>"

definition reply1 :: ChatResponse where
  "reply1 =
     \<lparr>message_id = 1, resp_session_id = ascii ''s1'', response = ascii ''A chronic condition.'',
      resp_evaluation_score = Some (87 / 100), resp_retrieved_context = [],
      response_time = 1 / 2, resp_timestamp = ascii ''T2'', is_medical = True,
      query_type = None\<rparr>"

text \<open>The store after that question was sent and the call failed with "Network Error".\<close>

definition failed_store :: useChat_state where
  "failed_store =
     snd (sendMessage (render idle_store) clock1 clock2 question1
       (Inl (Error (ascii ''Network Error''))) idle_store)"

text \<open>
  An answer of the service whose text quotes the error marker, and the store after a retry
  on the failed store was answered with it.
\<close>

definition reply_quoting :: ChatResponse where
  "reply_quoting =
     \<lparr>message_id = 2, resp_session_id = ascii ''s1'',
      response = ascii ''A line starting with '' @ error_marker @ ascii '' reports a failed call.'',
      resp_evaluation_score = None, resp_retrieved_context = [],
      response_time = 1 / 2, resp_timestamp = ascii ''T2'', is_medical = False,
      query_type = None\<rparr>"

definition quoted_store :: useChat_state where
  "quoted_store =
     snd (retryLastMessage (render failed_store) clock1 clock2 (Inr reply_quoting) failed_store)"

text \<open>A message of 2001 letters "a".\<close>

definition long_message :: jsstring where
  "long_message = replicate 2001 0x61"

text \<open>
  The question is sent in session "s1", a new chat is started while the call is in flight,
  and then the answer arrives.
\<close>

definition stale_store :: useChat_state where
  "stale_store =
     snd (sendMessage_settle clock2 (Inr reply1)
       (startNewChat 1500 (ascii ''abc1234'')
         (sendMessage_start (render idle_store) clock1 question1 idle_store)))"

text \<open>
  A history of two turns for session "s2", the first page of 50 turns of a session that
  has 60, and a directory listing two sessions.
\<close>

definition history1 :: ChatHistoryResponse where
  "history1 =
     \<lparr>hist_session_id = ascii ''s2'',
      hist_messages = [userMessage clock1 (ascii ''Hi''), assistantMessage reply1],
      total_count = 2, has_more = False\<rparr>"

definition first_page :: ChatHistoryResponse where
  "first_page =
     \<lparr>hist_session_id = ascii ''s2'',
      hist_messages = replicate 50 (userMessage clock1 (ascii ''Hi'')),
      total_count = 60, has_more = True\<rparr>"

definition directory1 :: useChatHistory_state where
  "directory1 =
     \<lparr>sessions = [\<lparr>session_id = ascii ''s1'', created_at = ascii ''T0'', message_count = 2,
                    is_active = True\<rparr>,
                  \<lparr>session_id = ascii ''s2'', created_at = ascii ''T1'', message_count = 4,
                    is_active = False\<rparr>],
      loading = False, history_error = None, history_network = []\<rparr>"

text \<open>The assistant turn that a settled send appends: the answer, or the error turn.\<close>

definition reply_turn :: "clock \<Rightarrow> thrown + ChatResponse \<Rightarrow> ChatMessage" where
  "reply_turn c outcome =
     (case outcome of
        Inr r \<Rightarrow> assistantMessage r
      | Inl x \<Rightarrow> errorMessageObj c (errorMessage_of (ascii ''Failed to send message'') x))"

text \<open>
  A viewport 500 pixels high over 1000 pixels of content: scrolled to the very end, and
  scrolled up to 400 pixels above the end.
\<close>

definition at_bottom :: element where
  "at_bottom = \<lparr>scrollTop = 500, scrollHeight = 1000, clientHeight = 500\<rparr>"

definition scrolled_up :: element where
  "scrolled_up = \<lparr>scrollTop = 100, scrollHeight = 1000, clientHeight = 500\<rparr>"

section \<open>Strings: blank input and the error marker\<close>

lemma dropWhile_all_Nil:
  "(\<forall>c\<in>set (dropWhile P s). P c) \<longleftrightarrow> dropWhile P s = []"
proof
  assume a: "\<forall>c\<in>set (dropWhile P s). P c"
  show "dropWhile P s = []"
  proof (rule ccontr)
    assume n: "dropWhile P s \<noteq> []"
    then have "\<not> P (hd (dropWhile P s))"
      using hd_dropWhile [of P s] by blast
    moreover from n have "hd (dropWhile P s) \<in> set (dropWhile P s)"
      by (rule hd_in_set)
    ultimately show False using a by blast
  qed
next
  assume h: "dropWhile P s = []"
  show "\<forall>c\<in>set (dropWhile P s). P c"
    unfolding h by simp
qed

lemma trim_Nil_iff: "trim s = [] \<longleftrightarrow> (\<forall>c\<in>set s. isWhiteSpace c)"
proof -
  have "trim s = [] \<longleftrightarrow> (\<forall>c\<in>set (dropWhile isWhiteSpace s). isWhiteSpace c)"
    by (simp add: trim_def)
  also have "\<dots> \<longleftrightarrow> dropWhile isWhiteSpace s = []"
    by (rule dropWhile_all_Nil)
  finally show ?thesis by simp
qed

lemma truthy_trim_iff: "truthy (trim s) \<longleftrightarrow> (\<exists>c\<in>set s. \<not> isWhiteSpace c)"
  by (simp add: truthy_def trim_Nil_iff)

lemma truthy_trim_truthy:
  assumes "truthy (trim s)"
  shows "truthy s"
proof -
  from assms obtain c where "c \<in> set s"
    using truthy_trim_iff by blast
  then show ?thesis
    by (auto simp: truthy_def)
qed

lemma includes_str_sublist: "includes_str s sub \<longleftrightarrow> sublist sub s"
  by (induction s) (auto simp: sublist_Cons_right)

lemma includes_str_append: "includes_str (pre @ sub @ post) sub"
  by (simp add: includes_str_sublist)

lemma errorMessageObj_marked: "isErrorTurn (errorMessageObj c m)"
  using includes_str_append [of "[]" error_marker]
  by (simp add: isErrorTurn_def errorMessageObj_def)

lemma userMessage_not_error: "\<not> isErrorTurn (userMessage c m)"
  by (simp add: isErrorTurn_def userMessage_def)

lemma truthy_trim_question1: "truthy (trim question1)"
  by (simp add: truthy_trim_iff question1_def ascii_def isWhiteSpace_def)

lemma not_loading_idle_store: "\<not> isLoading idle_store"
  by (simp add: idle_store_def)

lemma captured_render [simp]:
  "captured_isLoading (render s) = isLoading s"
  "captured_currentSessionId (render s) = currentSessionId s"
  by (simp_all add: render_def)

lemma not_loading_render_idle: "\<not> captured_isLoading (render idle_store)"
  by (simp add: idle_store_def)

section \<open>Sending a message\<close>

text \<open>
  Claim C1. For an accepted input \<open>Q\<close> (not blank, sent through a callback whose render
  was not loading: for the latest render, a store that is not loading), a send whose
  remote call succeeds leaves the log extended by exactly two turns: the user turn with
  content \<open>Q\<close>, then one assistant turn whose id, content, timestamp, evaluation score
  and retrieved context are those of the response. \<open>isLoading\<close> is false at the end, the
  request carried \<open>Q\<close> and the session identifier of the render, and nothing else of the
  store changed but \<open>lastMessageRef\<close> and the cleared error.
\<close>

theorem sendMessage_success:
  assumes "\<not> captured_isLoading k" and "truthy (trim Q)"
  shows "\<exists>u a. sendMessage k c1 c2 Q (Inr r) s =
           (None, s\<lparr>lastMessageRef := Q, isLoading := False, error := None,
                    messages := messages s @ [u, a],
                    network := network s @ [PostChatMessage \<lparr>req_message = Q,
                                 req_session_id = Some (captured_currentSessionId k)\<rparr>]\<rparr>)
         \<and> message_type u = User \<and> content u = Q
         \<and> message_type a = Assistant \<and> id_msg a = message_id r \<and> content a = response r
         \<and> timestamp a = resp_timestamp r
         \<and> evaluation_score a = resp_evaluation_score r
         \<and> retrieved_context a = Some (resp_retrieved_context r)"
proof (intro exI conjI)
  show "sendMessage k c1 c2 Q (Inr r) s =
           (None, s\<lparr>lastMessageRef := Q, isLoading := False, error := None,
                    messages := messages s @ [userMessage c1 Q, assistantMessage r],
                    network := network s @ [PostChatMessage \<lparr>req_message = Q,
                                 req_session_id = Some (captured_currentSessionId k)\<rparr>]\<rparr>)"
    using assms
    by (simp add: sendMessage_def sendMessage_settle_def sendMessage_try_def
        sendMessage_start_def)
qed (simp_all add: userMessage_def assistantMessage_def)

theorem sendMessage_success_witness:
  "\<not> isLoading idle_store \<and> truthy (trim question1)
   \<and> (\<exists>u a. messages (snd (sendMessage (render idle_store) clock1 clock2 question1 (Inr reply1) idle_store)) = [u, a]
        \<and> content u = question1 \<and> evaluation_score a = Some (87 / 100))"
proof -
  from sendMessage_success [OF not_loading_render_idle truthy_trim_question1, of clock1 clock2 reply1]
  obtain u a where
    "sendMessage (render idle_store) clock1 clock2 question1 (Inr reply1) idle_store =
       (None, idle_store\<lparr>lastMessageRef := question1, isLoading := False, error := None,
                    messages := messages idle_store @ [u, a],
                    network := network idle_store @ [PostChatMessage \<lparr>req_message = question1,
                                 req_session_id = Some (captured_currentSessionId (render idle_store))\<rparr>]\<rparr>)"
    and "content u = question1" and "evaluation_score a = resp_evaluation_score reply1"
    by blast
  then have "messages (snd (sendMessage (render idle_store) clock1 clock2 question1 (Inr reply1) idle_store)) = [u, a]
     \<and> content u = question1 \<and> evaluation_score a = Some (87 / 100)"
    by (simp add: idle_store_def reply1_def)
  then show ?thesis
    using not_loading_idle_store truthy_trim_question1 by blast
qed

text \<open>
  Claim C2. \<open>sendMessage\<close> never lets an exception out, whatever the input and the outcome
  of the call. For an accepted input whose remote call fails, the error text (the message
  of the \<open>Error\<close> thrown, or "Failed to send message") is stored in \<open>error\<close>, the log grows
  by the user's turn followed by exactly one assistant turn that carries the error marker,
  \<open>isLoading\<close> is cleared, and the store stays usable: the retained input is there for a
  retry and the callbacks of the next render accept every non-blank message again.
\<close>

theorem sendMessage_failure:
  "fst (sendMessage k c1 c2 Q outcome s) = None
   \<and> (\<not> captured_isLoading k \<and> truthy (trim Q) \<longrightarrow>
       (\<exists>u e. snd (sendMessage k c1 c2 Q (Inl x) s) =
           s\<lparr>lastMessageRef := Q, isLoading := False,
             error := Some (errorMessage_of (ascii ''Failed to send message'') x),
             messages := messages s @ [u, e],
             network := network s @ [PostChatMessage \<lparr>req_message = Q,
                                 req_session_id = Some (captured_currentSessionId k)\<rparr>]\<rparr>
         \<and> message_type u = User \<and> content u = Q
         \<and> message_type e = Assistant \<and> includes_str (content e) error_marker)
       \<and> truthy (lastMessageRef (snd (sendMessage k c1 c2 Q (Inl x) s)))
       \<and> (\<forall>m. truthy (trim m) \<longrightarrow> sendMessage_accepts (render (snd (sendMessage k c1 c2 Q (Inl x) s))) m))"
proof -
  have nothrow: "fst (sendMessage k c1 c2 Q outcome s) = None"
    by (cases outcome)
      (simp_all add: sendMessage_def sendMessage_settle_def sendMessage_try_def
        sendMessage_catch_def Let_def)
  have fail: "\<exists>u e. snd (sendMessage k c1 c2 Q (Inl x) s) =
           s\<lparr>lastMessageRef := Q, isLoading := False,
             error := Some (errorMessage_of (ascii ''Failed to send message'') x),
             messages := messages s @ [u, e],
             network := network s @ [PostChatMessage \<lparr>req_message = Q,
                                 req_session_id = Some (captured_currentSessionId k)\<rparr>]\<rparr>
         \<and> message_type u = User \<and> content u = Q
         \<and> message_type e = Assistant \<and> includes_str (content e) error_marker"
    if "\<not> captured_isLoading k" "truthy (trim Q)"
  proof (intro exI conjI)
    show "snd (sendMessage k c1 c2 Q (Inl x) s) =
           s\<lparr>lastMessageRef := Q, isLoading := False,
             error := Some (errorMessage_of (ascii ''Failed to send message'') x),
             messages := messages s @ [userMessage c1 Q,
                errorMessageObj c2 (errorMessage_of (ascii ''Failed to send message'') x)],
             network := network s @ [PostChatMessage \<lparr>req_message = Q,
                                 req_session_id = Some (captured_currentSessionId k)\<rparr>]\<rparr>"
      using that
      by (simp add: sendMessage_def sendMessage_settle_def sendMessage_try_def
          sendMessage_catch_def Let_def sendMessage_start_def)
    show "includes_str (content (errorMessageObj c2
             (errorMessage_of (ascii ''Failed to send message'') x))) error_marker"
      using errorMessageObj_marked by (simp add: isErrorTurn_def)
  qed (simp_all add: userMessage_def errorMessageObj_def)
  have usable: "truthy (lastMessageRef (snd (sendMessage k c1 c2 Q (Inl x) s)))
       \<and> (\<forall>m. truthy (trim m) \<longrightarrow> sendMessage_accepts (render (snd (sendMessage k c1 c2 Q (Inl x) s))) m)"
    if "\<not> captured_isLoading k" "truthy (trim Q)"
    using that truthy_trim_truthy [of Q]
    by (simp add: sendMessage_def sendMessage_settle_def sendMessage_try_def
          sendMessage_catch_def Let_def sendMessage_start_def sendMessage_accepts_def render_def)
  from nothrow fail usable show ?thesis by blast
qed

theorem sendMessage_failure_witness:
  "\<not> isLoading idle_store \<and> truthy (trim question1)
   \<and> fst (sendMessage (render idle_store) clock1 clock2 question1 (Inl (Error (ascii ''Network Error''))) idle_store) = None
   \<and> error (snd (sendMessage (render idle_store) clock1 clock2 question1 (Inl (Error (ascii ''Network Error''))) idle_store))
       = Some (ascii ''Network Error'')
   \<and> length (messages (snd (sendMessage (render idle_store) clock1 clock2 question1
        (Inl (Error (ascii ''Network Error''))) idle_store))) = 2
   \<and> sendMessage_accepts (render (snd (sendMessage (render idle_store) clock1 clock2 question1
        (Inl (Error (ascii ''Network Error''))) idle_store))) question1"
proof -
  let ?x = "Error (ascii ''Network Error'')"
  let ?s = "snd (sendMessage (render idle_store) clock1 clock2 question1 (Inl ?x) idle_store)"
  note t = sendMessage_failure [of "render idle_store" clock1 clock2 question1 "Inl ?x" idle_store ?x]
  from t have 1: "fst (sendMessage (render idle_store) clock1 clock2 question1 (Inl ?x) idle_store) = None"
    by blast
  from t not_loading_render_idle truthy_trim_question1
  obtain u e where
    2: "?s = idle_store\<lparr>lastMessageRef := question1, isLoading := False,
             error := Some (errorMessage_of (ascii ''Failed to send message'') ?x),
             messages := messages idle_store @ [u, e],
             network := network idle_store @ [PostChatMessage \<lparr>req_message = question1,
                                 req_session_id = Some (captured_currentSessionId (render idle_store))\<rparr>]\<rparr>"
    by blast
  from t not_loading_render_idle truthy_trim_question1
  have 3: "sendMessage_accepts (render ?s) question1"
    by blast
  have 4: "error ?s = Some (ascii ''Network Error'')"
    unfolding 2 by (simp add: errorMessage_of_def)
  have 5: "length (messages ?s) = 2"
    unfolding 2 by (simp add: idle_store_def)
  from 1 3 4 5 not_loading_idle_store truthy_trim_question1 show ?thesis
    by blast
qed

section \<open>Retrying\<close>

lemma not_isErrorTurn_iff:
  "\<not> isErrorTurn m \<longleftrightarrow> message_type m = User \<or> \<not> includes_str (content m) error_marker"
  by (cases "message_type m") (simp_all add: isErrorTurn_def)

lemma removeErrorTurns_idem: "removeErrorTurns (removeErrorTurns s) = removeErrorTurns s"
  by (simp add: removeErrorTurns_def)

lemma removeErrorTurns_clean:
  "(\<forall>m\<in>set (messages s). \<not> isErrorTurn m) \<Longrightarrow> removeErrorTurns s = s"
  by (simp add: removeErrorTurns_def)

lemma removeErrorTurns_users:
  "filter (\<lambda>m. message_type m = User) (messages (removeErrorTurns s))
     = filter (\<lambda>m. message_type m = User) (messages s)"
proof -
  have "(\<not> isErrorTurn m \<and> message_type m = User) \<longleftrightarrow> message_type m = User" for m
    by (auto simp: isErrorTurn_def)
  then show ?thesis
    by (simp add: removeErrorTurns_def)
qed

lemma sendMessage_blank: "\<not> truthy (trim m) \<Longrightarrow> sendMessage k c1 c2 m outcome s = (None, s)"
  by (simp add: sendMessage_def)

lemma failed_store_eq:
  "failed_store =
     idle_store\<lparr>lastMessageRef := question1, error := Some (ascii ''Network Error''),
       messages := [userMessage clock1 question1, errorMessageObj clock2 (ascii ''Network Error'')],
       network := [PostChatMessage \<lparr>req_message = question1, req_session_id = Some (ascii ''s1'')\<rparr>]\<rparr>"
  using truthy_trim_question1
  by (simp add: failed_store_def sendMessage_def sendMessage_settle_def sendMessage_try_def
      sendMessage_catch_def Let_def sendMessage_start_def errorMessage_of_def idle_store_def)

lemma failed_store_fields:
  "lastMessageRef failed_store = question1" "\<not> isLoading failed_store"
  "currentSessionId failed_store = ascii ''s1''"
  by (simp_all add: failed_store_eq idle_store_def)

lemma removeErrorTurns_failed_store:
  "removeErrorTurns failed_store = failed_store\<lparr>messages := [userMessage clock1 question1]\<rparr>"
  using userMessage_not_error errorMessageObj_marked
  by (simp add: removeErrorTurns_def failed_store_eq)

lemma reply_quoting_marked: "isErrorTurn (assistantMessage reply_quoting)"
  using includes_str_append
    [of "ascii ''A line starting with ''" error_marker "ascii '' reports a failed call.''"]
  by (simp add: isErrorTurn_def assistantMessage_def reply_quoting_def)

lemma reply1_not_marked: "\<not> isErrorTurn (assistantMessage reply1)"
  by (simp add: isErrorTurn_def assistantMessage_def reply1_def error_marker_def ascii_def)

lemma quoted_store_eq:
  "quoted_store =
     failed_store\<lparr>isLoading := False, error := None,
       messages := [userMessage clock1 question1, userMessage clock1 question1,
                    assistantMessage reply_quoting],
       network := network failed_store @
         [PostChatMessage \<lparr>req_message = question1, req_session_id = Some (ascii ''s1'')\<rparr>]\<rparr>"
proof -
  have "truthy (lastMessageRef failed_store)"
    using truthy_trim_question1 truthy_trim_truthy by (simp add: failed_store_fields)
  then have "quoted_store =
      snd (sendMessage (render failed_store) clock1 clock2 question1 (Inr reply_quoting)
        (failed_store\<lparr>messages := [userMessage clock1 question1]\<rparr>))"
    by (simp add: quoted_store_def retryLastMessage_def removeErrorTurns_failed_store
        failed_store_fields)
  then show ?thesis
    using truthy_trim_question1
    by (simp add: sendMessage_def sendMessage_settle_def sendMessage_try_def
        sendMessage_start_def failed_store_eq idle_store_def)
qed

text \<open>
  Claim C3, as stated, fails in its last part. A retry on the failed store is answered,
  successfully, with a text that quotes the marker: no new error is present (\<open>error\<close> is
  cleared). The next retry removes that answer from the log, where a plain resend keeps
  it.
\<close>

theorem retry_twice_counterexample:
  "error quoted_store = None
   \<and> messages quoted_store
       = [userMessage clock1 question1, userMessage clock1 question1,
          assistantMessage reply_quoting]
   \<and> messages (snd (retryLastMessage (render quoted_store) clock1 clock2 (Inr reply1) quoted_store))
       = [userMessage clock1 question1, userMessage clock1 question1,
          userMessage clock1 question1, assistantMessage reply1]
   \<and> messages (snd (sendMessage (render quoted_store) clock1 clock2 (lastMessageRef quoted_store)
        (Inr reply1) quoted_store))
       = [userMessage clock1 question1, userMessage clock1 question1,
          assistantMessage reply_quoting, userMessage clock1 question1, assistantMessage reply1]"
proof -
  have ref: "lastMessageRef quoted_store = question1" and idle: "\<not> isLoading quoted_store"
    by (simp_all add: quoted_store_eq failed_store_fields)
  have msgs: "messages quoted_store
       = [userMessage clock1 question1, userMessage clock1 question1,
          assistantMessage reply_quoting]"
    by (simp add: quoted_store_eq)
  have cleaned: "removeErrorTurns quoted_store =
      quoted_store\<lparr>messages := [userMessage clock1 question1, userMessage clock1 question1]\<rparr>"
    using userMessage_not_error reply_quoting_marked by (simp add: removeErrorTurns_def msgs)
  have "truthy (lastMessageRef quoted_store)"
    using truthy_trim_question1 truthy_trim_truthy by (simp add: ref)
  then have retry: "messages (snd (retryLastMessage (render quoted_store) clock1 clock2
        (Inr reply1) quoted_store))
       = [userMessage clock1 question1, userMessage clock1 question1,
          userMessage clock1 question1, assistantMessage reply1]"
    using truthy_trim_question1 idle
    by (simp add: retryLastMessage_def cleaned ref sendMessage_def sendMessage_settle_def
        sendMessage_try_def sendMessage_start_def)
  have plain: "messages (snd (sendMessage (render quoted_store) clock1 clock2
        (lastMessageRef quoted_store) (Inr reply1) quoted_store))
       = [userMessage clock1 question1, userMessage clock1 question1,
          assistantMessage reply_quoting, userMessage clock1 question1, assistantMessage reply1]"
    using truthy_trim_question1 idle
    by (simp add: ref sendMessage_def sendMessage_settle_def sendMessage_try_def
        sendMessage_start_def msgs)
  have "error quoted_store = None"
    by (simp add: quoted_store_eq)
  with msgs retry plain show ?thesis
    by simp
qed

text \<open>
  Claim C3, amended. \<open>retryLastMessage\<close> does nothing when no input has been recorded.
  Otherwise it is \<open>sendMessage\<close> of the retained input on the store whose log has lost every
  assistant turn whose content contains the marker: all of them go, every user turn stays,
  in order, and nothing else of the store is touched by the cleanup. The cleanup is
  idempotent. A retry is the plain send whenever the log holds no assistant turn that
  contains the marker; so a second retry right after an accepted first one is a plain
  resend when the answer to the first does not contain the marker (an answer that quotes
  it is removed like an error turn).
\<close>

theorem retryLastMessage_cleans_and_resends:
  "(\<not> truthy (lastMessageRef s) \<longrightarrow> retryLastMessage k c1 c2 outcome s = (None, s))
   \<and> (truthy (lastMessageRef s) \<longrightarrow>
        retryLastMessage k c1 c2 outcome s
          = sendMessage k c1 c2 (lastMessageRef s) outcome (removeErrorTurns s))
   \<and> removeErrorTurns s =
        s\<lparr>messages := filter (\<lambda>m. message_type m = User
                                   \<or> \<not> includes_str (content m) error_marker) (messages s)\<rparr>
   \<and> filter (\<lambda>m. message_type m = User) (messages (removeErrorTurns s))
        = filter (\<lambda>m. message_type m = User) (messages s)
   \<and> (\<forall>m\<in>set (messages (removeErrorTurns s)). \<not> isErrorTurn m)
   \<and> removeErrorTurns (removeErrorTurns s) = removeErrorTurns s
   \<and> ((\<forall>m\<in>set (messages s). \<not> isErrorTurn m) \<longrightarrow>
        retryLastMessage k c1 c2 outcome s = sendMessage k c1 c2 (lastMessageRef s) outcome s)
   \<and> (\<not> captured_isLoading k \<and> truthy (trim (lastMessageRef s))
        \<and> \<not> includes_str (response r) error_marker \<longrightarrow>
        retryLastMessage k' c3 c4 outcome (snd (retryLastMessage k c1 c2 (Inr r) s))
          = sendMessage k' c3 c4 (lastMessageRef s) outcome
              (snd (retryLastMessage k c1 c2 (Inr r) s)))"
proof -
  have noop: "retryLastMessage k c1 c2 outcome s = (None, s)" if "\<not> truthy (lastMessageRef s)"
    using that by (simp add: retryLastMessage_def)
  have resend: "retryLastMessage k c1 c2 outcome s
          = sendMessage k c1 c2 (lastMessageRef s) outcome (removeErrorTurns s)"
    if "truthy (lastMessageRef s)"
    using that by (simp add: retryLastMessage_def)
  have cleaned: "removeErrorTurns s =
        s\<lparr>messages := filter (\<lambda>m. message_type m = User
                                   \<or> \<not> includes_str (content m) error_marker) (messages s)\<rparr>"
    by (simp add: removeErrorTurns_def not_isErrorTurn_iff)
  have none_left: "\<forall>m\<in>set (messages (removeErrorTurns s)). \<not> isErrorTurn m"
    by (simp add: removeErrorTurns_def)
  have plain: "retryLastMessage k c1 c2 outcome s = sendMessage k c1 c2 (lastMessageRef s) outcome s"
    if clean: "\<forall>m\<in>set (messages s). \<not> isErrorTurn m"
  proof (cases "truthy (lastMessageRef s)")
    case True
    then show ?thesis
      using removeErrorTurns_clean [OF clean] by (simp add: retryLastMessage_def)
  next
    case False
    then have "\<not> truthy (trim (lastMessageRef s))"
      using truthy_trim_truthy by blast
    then show ?thesis
      using False sendMessage_blank by (simp add: retryLastMessage_def)
  qed
  have twice: "retryLastMessage k' c3 c4 outcome (snd (retryLastMessage k c1 c2 (Inr r) s))
          = sendMessage k' c3 c4 (lastMessageRef s) outcome
              (snd (retryLastMessage k c1 c2 (Inr r) s))"
    if a: "\<not> captured_isLoading k" "truthy (trim (lastMessageRef s))"
      and b: "\<not> includes_str (response r) error_marker"
  proof -
    let ?Q = "lastMessageRef s"
    let ?s1 = "snd (retryLastMessage k c1 c2 (Inr r) s)"
    from a have t: "truthy ?Q"
      using truthy_trim_truthy by blast
    have s1: "?s1 = (removeErrorTurns s)\<lparr>lastMessageRef := ?Q, isLoading := False, error := None,
                    messages := messages (removeErrorTurns s) @ [userMessage c1 ?Q, assistantMessage r],
                    network := network s @ [PostChatMessage \<lparr>req_message = ?Q,
                                 req_session_id = Some (captured_currentSessionId k)\<rparr>]\<rparr>"
      using a t
      by (simp add: retryLastMessage_def sendMessage_def sendMessage_settle_def
          sendMessage_try_def sendMessage_start_def removeErrorTurns_def)
    have "\<not> isErrorTurn (assistantMessage r)"
      using b by (simp add: isErrorTurn_def assistantMessage_def)
    then have clean: "\<forall>m\<in>set (messages ?s1). \<not> isErrorTurn m"
      unfolding s1 using userMessage_not_error by (simp add: removeErrorTurns_def)
    have ref: "lastMessageRef ?s1 = ?Q"
      unfolding s1 by simp
    have "truthy (lastMessageRef ?s1)"
      using t ref by simp
    then have "retryLastMessage k' c3 c4 outcome ?s1
        = sendMessage k' c3 c4 (lastMessageRef ?s1) outcome (removeErrorTurns ?s1)"
      by (simp add: retryLastMessage_def)
    also have "removeErrorTurns ?s1 = ?s1"
      using clean by (rule removeErrorTurns_clean)
    finally show ?thesis
      using ref by simp
  qed
  from noop resend cleaned removeErrorTurns_users none_left removeErrorTurns_idem plain twice
  show ?thesis by blast
qed

theorem retryLastMessage_cleans_and_resends_witness:
  "\<not> truthy (lastMessageRef idle_store)
   \<and> retryLastMessage (render idle_store) clock1 clock2 (Inr reply1) idle_store = (None, idle_store)
   \<and> truthy (lastMessageRef failed_store)
   \<and> messages failed_store
        = [userMessage clock1 question1, errorMessageObj clock2 (ascii ''Network Error'')]
   \<and> messages (snd (retryLastMessage (render failed_store) clock1 clock2 (Inr reply1) failed_store))
        = [userMessage clock1 question1, userMessage clock1 question1, assistantMessage reply1]
   \<and> \<not> captured_isLoading (render failed_store) \<and> truthy (trim (lastMessageRef failed_store))
   \<and> \<not> includes_str (response reply1) error_marker
   \<and> retryLastMessage (render idle_store) clock2 clock2 (Inl NonError)
        (snd (retryLastMessage (render failed_store) clock1 clock2 (Inr reply1) failed_store))
       = sendMessage (render idle_store) clock2 clock2 question1 (Inl NonError)
        (snd (retryLastMessage (render failed_store) clock1 clock2 (Inr reply1) failed_store))"
proof -
  note t = retryLastMessage_cleans_and_resends
  have 1: "\<not> truthy (lastMessageRef idle_store)"
    by (simp add: idle_store_def truthy_def)
  with t [of idle_store "render idle_store" clock1 clock2 "Inr reply1"]
  have 2: "retryLastMessage (render idle_store) clock1 clock2 (Inr reply1) idle_store = (None, idle_store)"
    by blast
  have 3: "truthy (lastMessageRef failed_store)"
    using truthy_trim_question1 truthy_trim_truthy by (simp add: failed_store_eq)
  have 4: "messages failed_store
        = [userMessage clock1 question1, errorMessageObj clock2 (ascii ''Network Error'')]"
    by (simp add: failed_store_eq)
  from 3 t [of failed_store "render failed_store" clock1 clock2 "Inr reply1"]
  have "retryLastMessage (render failed_store) clock1 clock2 (Inr reply1) failed_store
          = sendMessage (render failed_store) clock1 clock2 (lastMessageRef failed_store) (Inr reply1)
              (removeErrorTurns failed_store)"
    by blast
  moreover note removeErrorTurns_failed_store failed_store_fields
  ultimately have 5: "messages (snd (retryLastMessage (render failed_store) clock1 clock2 (Inr reply1) failed_store))
        = [userMessage clock1 question1, userMessage clock1 question1, assistantMessage reply1]"
    using truthy_trim_question1
    by (simp add: sendMessage_def sendMessage_settle_def sendMessage_try_def
        sendMessage_start_def)
  have 6: "\<not> captured_isLoading (render failed_store)"
    "truthy (trim (lastMessageRef failed_store))"
    using truthy_trim_question1 by (simp_all add: failed_store_fields)
  have 7: "\<not> includes_str (response reply1) error_marker"
    using reply1_not_marked by (simp add: isErrorTurn_def assistantMessage_def)
  from 6 7 t [of failed_store "render failed_store" clock1 clock2 "Inl NonError" reply1
      "render idle_store" clock2 clock2]
  have 8: "retryLastMessage (render idle_store) clock2 clock2 (Inl NonError)
        (snd (retryLastMessage (render failed_store) clock1 clock2 (Inr reply1) failed_store))
       = sendMessage (render idle_store) clock2 clock2 question1 (Inl NonError)
        (snd (retryLastMessage (render failed_store) clock1 clock2 (Inr reply1) failed_store))"
    by (simp add: failed_store_fields)
  from 1 2 3 4 5 6 7 8 show ?thesis by blast
qed

section \<open>Rejected input\<close>

lemma truthy_trim_long_message: "truthy (trim long_message)"
proof -
  have "(0x61 :: code_unit) \<in> set long_message"
    unfolding long_message_def by (simp only: set_replicate_conv_if) simp
  moreover have "\<not> isWhiteSpace 0x61"
    by (simp add: isWhiteSpace_def)
  ultimately show ?thesis
    unfolding truthy_trim_iff by blast
qed

lemma length_long_message: "length long_message = 2001"
  unfolding long_message_def by (simp only: length_replicate)

lemma sendMessage_start_rejects:
  "captured_isLoading k \<or> \<not> truthy (trim m) \<Longrightarrow> sendMessage_start k c m s = s"
  by (simp add: sendMessage_start_def)

lemma sendMessage_rejects:
  "captured_isLoading k \<or> \<not> truthy (trim m) \<Longrightarrow> sendMessage k c1 c2 m outcome s = (None, s)"
  by (simp add: sendMessage_def)

lemma sendMessage_start_accepted:
  "\<not> captured_isLoading k \<Longrightarrow> truthy (trim m) \<Longrightarrow>
   sendMessage_start k c m s =
     s\<lparr>lastMessageRef := m, isLoading := True, error := None,
       messages := messages s @ [userMessage c m],
       network := network s @
         [PostChatMessage \<lparr>req_message = m, req_session_id = Some (captured_currentSessionId k)\<rparr>]\<rparr>"
  by (simp add: sendMessage_start_def)

lemma handleSubmit_invalid:
  assumes "\<not> truthy (trim (input_message i)) \<or> length (input_message i) > 2000"
  shows "handleSubmit onSend (i, w) =
      (i\<lparr>input_error := Some (if \<not> truthy (trim (input_message i))
                               then ascii ''Message cannot be empty''
                               else ascii ''Message is too long (max 2000 characters)'')\<rparr>, w)"
  using assms
  by (auto simp: handleSubmit_def validateMessage_def Let_def truthy_def ascii_def)

lemma handleSubmit_valid:
  assumes "truthy (trim (input_message i))" and "length (input_message i) \<le> 2000"
  shows "handleSubmit onSend (i, w) =
      (i\<lparr>input_message := [], input_error := None\<rparr>, onSend (input_message i) w)"
  using assms
  by (simp add: handleSubmit_def validateMessage_def Let_def)

text \<open>
  Claim C4, as stated, fails twice. \<open>sendMessage\<close> has no length check: on an idle store
  a message of 2001 characters is appended to the log and sent to the service. And its
  guard reads the \<open>isLoading\<close> its render captured: a second call through the same
  callback, made when the first has already set \<open>isLoading\<close>, is appended and sent too.
\<close>

theorem sendMessage_overlength_counterexample:
  "length long_message > 2000
   \<and> messages (snd (sendMessage (render idle_store) clock1 clock2 long_message (Inr reply1)
        idle_store))
       = [userMessage clock1 long_message, assistantMessage reply1]
   \<and> network (snd (sendMessage (render idle_store) clock1 clock2 long_message (Inr reply1)
        idle_store))
       = [PostChatMessage \<lparr>req_message = long_message, req_session_id = Some (ascii ''s1'')\<rparr>]
   \<and> isLoading (sendMessage_start (render idle_store) clock1 question1 idle_store)
   \<and> messages (sendMessage_start (render idle_store) clock2 question1
        (sendMessage_start (render idle_store) clock1 question1 idle_store))
       = [userMessage clock1 question1, userMessage clock2 question1]
   \<and> network (sendMessage_start (render idle_store) clock2 question1
        (sendMessage_start (render idle_store) clock1 question1 idle_store))
       = [PostChatMessage \<lparr>req_message = question1, req_session_id = Some (ascii ''s1'')\<rparr>,
          PostChatMessage \<lparr>req_message = question1, req_session_id = Some (ascii ''s1'')\<rparr>]"
  using truthy_trim_long_message truthy_trim_question1
  by (simp add: length_long_message sendMessage_def sendMessage_settle_def sendMessage_try_def
      sendMessage_start_def idle_store_def)

text \<open>
  Claim C4, amended. \<open>sendMessage\<close> is a no-op, on the log, the network and the rest of the
  store, for blank input and whenever the \<open>isLoading\<close> captured by the render of its
  callback is true, which for the callback of the latest render is the store's
  \<open>isLoading\<close>; any other input, of whatever length and whatever the store's \<open>isLoading\<close>
  has become since that render, is appended and sent. The limit of 2000 characters is
  enforced one level up, by
  \<open>validateMessage\<close> in \<open>MessageInput.handleSubmit\<close>: for blank text or text longer than
  2000 code units it sets the form's error, keeps the text, and does not call
  \<open>onSendMessage\<close> (whatever that function is, the receiver's state is unchanged); for any
  other text it clears the form and calls \<open>onSendMessage\<close> with it.
\<close>

theorem sendMessage_guard_and_form_validation:
  "(captured_isLoading k \<or> \<not> truthy (trim m) \<longrightarrow>
      sendMessage k c1 c2 m outcome s = (None, s) \<and> sendMessage_start k c1 m s = s)
   \<and> (\<not> captured_isLoading k \<and> truthy (trim m) \<longrightarrow>
      messages (sendMessage_start k c1 m s) = messages s @ [userMessage c1 m]
      \<and> network (sendMessage_start k c1 m s) = network s @
          [PostChatMessage \<lparr>req_message = m, req_session_id = Some (captured_currentSessionId k)\<rparr>])
   \<and> captured_isLoading (render s) = isLoading s
   \<and> (\<not> truthy (trim (input_message i)) \<or> length (input_message i) > 2000 \<longrightarrow>
      snd (handleSubmit onSend (i, w)) = w
      \<and> input_message (fst (handleSubmit onSend (i, w))) = input_message i
      \<and> input_error (fst (handleSubmit onSend (i, w))) =
          Some (if \<not> truthy (trim (input_message i))
                then ascii ''Message cannot be empty''
                else ascii ''Message is too long (max 2000 characters)''))
   \<and> (truthy (trim (input_message i)) \<and> length (input_message i) \<le> 2000 \<longrightarrow>
      handleSubmit onSend (i, w) =
        (i\<lparr>input_message := [], input_error := None\<rparr>, onSend (input_message i) w))"
proof -
  have a: "sendMessage k c1 c2 m outcome s = (None, s) \<and> sendMessage_start k c1 m s = s"
    if "captured_isLoading k \<or> \<not> truthy (trim m)"
    using that sendMessage_rejects sendMessage_start_rejects by blast
  have b: "messages (sendMessage_start k c1 m s) = messages s @ [userMessage c1 m]
      \<and> network (sendMessage_start k c1 m s) = network s @
          [PostChatMessage \<lparr>req_message = m, req_session_id = Some (captured_currentSessionId k)\<rparr>]"
    if "\<not> captured_isLoading k \<and> truthy (trim m)"
    using that by (simp add: sendMessage_start_accepted)
  have c: "snd (handleSubmit onSend (i, w)) = w
      \<and> input_message (fst (handleSubmit onSend (i, w))) = input_message i
      \<and> input_error (fst (handleSubmit onSend (i, w))) =
          Some (if \<not> truthy (trim (input_message i))
                then ascii ''Message cannot be empty''
                else ascii ''Message is too long (max 2000 characters)'')"
    if "\<not> truthy (trim (input_message i)) \<or> length (input_message i) > 2000"
    using handleSubmit_invalid [OF that, of onSend w] by simp
  have d: "handleSubmit onSend (i, w) =
        (i\<lparr>input_message := [], input_error := None\<rparr>, onSend (input_message i) w)"
    if "truthy (trim (input_message i)) \<and> length (input_message i) \<le> 2000"
    using that by (simp add: handleSubmit_valid)
  from a b c d show ?thesis by simp
qed

theorem sendMessage_guard_and_form_validation_witness:
  "isLoading (idle_store\<lparr>isLoading := True\<rparr>)
   \<and> sendMessage (render (idle_store\<lparr>isLoading := True\<rparr>)) clock1 clock2 question1 (Inr reply1)
        (idle_store\<lparr>isLoading := True\<rparr>)
       = (None, idle_store\<lparr>isLoading := True\<rparr>)
   \<and> \<not> isLoading idle_store \<and> truthy (trim long_message)
   \<and> messages (sendMessage_start (render idle_store) clock1 long_message idle_store)
       = [userMessage clock1 long_message]
   \<and> length (input_message \<lparr>input_message = long_message, input_error = None\<rparr>) > 2000
   \<and> snd (handleSubmit (sendMessage_start (render idle_store) clock1)
            (\<lparr>input_message = long_message, input_error = None\<rparr>, idle_store)) = idle_store
   \<and> truthy (trim (input_message \<lparr>input_message = question1, input_error = None\<rparr>))
   \<and> length (input_message \<lparr>input_message = question1, input_error = None\<rparr>) \<le> 2000
   \<and> snd (handleSubmit (sendMessage_start (render idle_store) clock1)
            (\<lparr>input_message = question1, input_error = None\<rparr>, idle_store))
       = sendMessage_start (render idle_store) clock1 question1 idle_store"
proof -
  let ?busy = "idle_store\<lparr>isLoading := True\<rparr>"
  let ?long = "\<lparr>input_message = long_message, input_error = None\<rparr>"
  let ?ok = "\<lparr>input_message = question1, input_error = None\<rparr>"
  note t1 = sendMessage_guard_and_form_validation
    [of "render ?busy" question1 clock1 clock2 "Inr reply1" ?busy ?long
      "sendMessage_start (render idle_store) clock1" idle_store]
  note t2 = sendMessage_guard_and_form_validation
    [of "render idle_store" long_message clock1 clock2 "Inr reply1" idle_store ?ok
      "sendMessage_start (render idle_store) clock1" idle_store]
  have 1: "isLoading ?busy"
    by simp
  have 2: "sendMessage (render ?busy) clock1 clock2 question1 (Inr reply1) ?busy = (None, ?busy)"
    using t1 [THEN conjunct1] 1 by simp
  have "messages (sendMessage_start (render idle_store) clock1 long_message idle_store)
       = messages idle_store @ [userMessage clock1 long_message]"
    using t2 [THEN conjunct2, THEN conjunct1] not_loading_idle_store truthy_trim_long_message
    by simp
  then have 3: "messages (sendMessage_start (render idle_store) clock1 long_message idle_store)
       = [userMessage clock1 long_message]"
    by (simp add: idle_store_def)
  have 4: "length (input_message ?long) > 2000"
    by (simp add: length_long_message)
  have 5: "snd (handleSubmit (sendMessage_start (render idle_store) clock1) (?long, idle_store)) = idle_store"
    using t1 [THEN conjunct2, THEN conjunct2, THEN conjunct2, THEN conjunct1] 4 by simp
  have 6: "truthy (trim (input_message ?ok))" "length (input_message ?ok) \<le> 2000"
    using truthy_trim_question1 by (simp_all add: question1_def ascii_def)
  have 7: "snd (handleSubmit (sendMessage_start (render idle_store) clock1) (?ok, idle_store))
       = sendMessage_start (render idle_store) clock1 question1 idle_store"
    using t2 [THEN conjunct2, THEN conjunct2, THEN conjunct2, THEN conjunct2] 6 by simp
  from 1 2 3 4 5 6 7 not_loading_idle_store truthy_trim_long_message show ?thesis
    by simp
qed

section \<open>A response that arrives after a session switch\<close>

lemma sendMessage_settle_success:
  "sendMessage_settle c (Inr r) s =
     (None, s\<lparr>messages := messages s @ [assistantMessage r], isLoading := False\<rparr>)"
  by (simp add: sendMessage_settle_def sendMessage_try_def)

lemma sendMessage_settle_failure:
  "sendMessage_settle c (Inl x) s =
     (None, s\<lparr>error := Some (errorMessage_of (ascii ''Failed to send message'') x),
              messages := messages s @
                [errorMessageObj c (errorMessage_of (ascii ''Failed to send message'') x)],
              isLoading := False\<rparr>)"
  by (simp add: sendMessage_settle_def sendMessage_try_def sendMessage_catch_def Let_def)

text \<open>
  Claim C5, as stated, fails: the answer to the request issued against session "s1" ends
  up as the only turn in the log of the session started meanwhile, whose identifier is
  another one.
\<close>

theorem stale_response_counterexample:
  "network stale_store =
     [PostChatMessage \<lparr>req_message = question1, req_session_id = Some (ascii ''s1'')\<rparr>]
   \<and> currentSessionId stale_store = generateSessionId 1500 (ascii ''abc1234'')
   \<and> generateSessionId 1500 (ascii ''abc1234'') \<noteq> ascii ''s1''
   \<and> messages stale_store = [assistantMessage reply1]"
  using truthy_trim_question1
  by (simp add: stale_store_def sendMessage_settle_success startNewChat_def
      sendMessage_start_def idle_store_def)
    (simp add: generateSessionId_def ascii_def)

text \<open>
  Claim C5, amended. The continuation of \<open>sendMessage\<close> checks no session identifier: in
  whatever state the store is when the call settles, it appends the assistant turn built
  from the response (or the error turn, recording the error), clears \<open>isLoading\<close> and
  leaves \<open>currentSessionId\<close> as it finds it. The session identifier, the one the callback's
  render captured, is used only when the send is issued, as the \<open>session_id\<close> of the
  request.
\<close>

theorem sendMessage_settle_unguarded:
  "sendMessage_settle c (Inr r) s =
     (None, s\<lparr>messages := messages s @ [assistantMessage r], isLoading := False\<rparr>)
   \<and> sendMessage_settle c (Inl x) s =
     (None, s\<lparr>error := Some (errorMessage_of (ascii ''Failed to send message'') x),
              messages := messages s @
                [errorMessageObj c (errorMessage_of (ascii ''Failed to send message'') x)],
              isLoading := False\<rparr>)
   \<and> currentSessionId (snd (sendMessage_settle c outcome s)) = currentSessionId s
   \<and> network (sendMessage_start k c m s) =
       (if captured_isLoading k \<or> \<not> truthy (trim m) then network s
        else network s @ [PostChatMessage \<lparr>req_message = m,
                            req_session_id = Some (captured_currentSessionId k)\<rparr>])"
proof -
  have "currentSessionId (snd (sendMessage_settle c outcome s)) = currentSessionId s"
    by (cases outcome) (simp_all add: sendMessage_settle_success sendMessage_settle_failure)
  moreover have "network (sendMessage_start k c m s) =
       (if captured_isLoading k \<or> \<not> truthy (trim m) then network s
        else network s @ [PostChatMessage \<lparr>req_message = m,
                            req_session_id = Some (captured_currentSessionId k)\<rparr>])"
    by (simp add: sendMessage_start_def)
  ultimately show ?thesis
    using sendMessage_settle_success sendMessage_settle_failure by simp
qed

theorem sendMessage_settle_unguarded_witness:
  "messages (snd (sendMessage_settle clock2 (Inr reply1) (clearChat (startNewChat 7 [] idle_store))))
     = [assistantMessage reply1]
   \<and> network (sendMessage_start (render idle_store) clock2 question1 idle_store)
     = [PostChatMessage \<lparr>req_message = question1, req_session_id = Some (ascii ''s1'')\<rparr>]"
  using sendMessage_settle_unguarded
    [of clock2 reply1 "clearChat (startNewChat 7 [] idle_store)" NonError "Inr reply1"
      "render idle_store" question1]
    sendMessage_settle_unguarded
    [of clock2 reply1 idle_store NonError "Inr reply1" "render idle_store" question1]
    truthy_trim_question1
  by (simp add: clearChat_def startNewChat_def idle_store_def)

section \<open>Loading a session\<close>

lemma loadSession_calls_success:
  "loadSession_calls sessionId (Inr history) =
     (None, [SetMessages (hist_messages history), SetCurrentSessionId sessionId,
             SetIsLoading False])"
  by (simp add: loadSession_calls_def loadSession_try_def)

lemma loadSession_calls_failure:
  "loadSession_calls sessionId (Inl e) =
     (None, [SetError (Some (errorMessage_of (ascii ''Failed to load chat history'') e)),
             SetIsLoading False])"
  by (simp add: loadSession_calls_def loadSession_try_def loadSession_catch_def)

lemma loadSession_success:
  "loadSession sessionId (Inr history) s =
     (None, s\<lparr>messages := hist_messages history, currentSessionId := sessionId,
              isLoading := False, error := None,
              network := network s @ [GetChatHistory sessionId 50 0]\<rparr>)"
  by (simp add: loadSession_def loadSession_settle_def loadSession_calls_success
      loadSession_start_def)

lemma loadSession_failure:
  "loadSession sessionId (Inl e) s =
     (None, s\<lparr>isLoading := False,
              error := Some (errorMessage_of (ascii ''Failed to load chat history'') e),
              network := network s @ [GetChatHistory sessionId 50 0]\<rparr>)"
  by (simp add: loadSession_def loadSession_settle_def loadSession_calls_failure
      loadSession_start_def)

lemma length_first_page: "length (hist_messages first_page) = 50"
  by (simp add: first_page_def)

text \<open>
  Claim C6, as stated, fails on two counts. The history is asked for once, with the
  defaults of \<open>getChatHistory\<close> (limit 50, offset 0), and \<open>has_more\<close> is never read: of a
  session with 60 turns the log receives the 50 of the first page. And the log and the
  session identifier are set by two calls, one after the other: after the first, the store
  holds the log of "s2" under the identifier "s1".
\<close>

theorem loadSession_counterexample:
  "has_more first_page \<and> total_count first_page = 60
   \<and> length (messages (snd (loadSession (ascii ''s2'') (Inr first_page) failed_store))) = 50
   \<and> network (snd (loadSession (ascii ''s2'') (Inr first_page) failed_store))
       = network failed_store @ [GetChatHistory (ascii ''s2'') 50 0]
   \<and> messages (hd (states_after (snd (loadSession_calls (ascii ''s2'') (Inr history1)))
        (loadSession_start (ascii ''s2'') failed_store)))
       = hist_messages history1
   \<and> currentSessionId (hd (states_after (snd (loadSession_calls (ascii ''s2'') (Inr history1)))
        (loadSession_start (ascii ''s2'') failed_store)))
       = ascii ''s1''"
proof -
  have "has_more first_page \<and> total_count first_page = 60"
    by (simp add: first_page_def)
  moreover have "currentSessionId (loadSession_start (ascii ''s2'') failed_store) = ascii ''s1''"
    by (simp add: loadSession_start_def failed_store_fields)
  ultimately show ?thesis
    by (simp add: loadSession_success loadSession_calls_success length_first_page)
qed

text \<open>
  Claim C6, amended. \<open>loadSession\<close> first sets \<open>isLoading\<close>, clears the error and asks the
  service for one page of the session's history (limit 50, offset 0), leaving the log and
  the session identifier as they were. When the call succeeds, one setter call replaces
  the whole log by the messages of that page, the next sets the session identifier to the
  requested one, the last clears \<open>isLoading\<close>; when it fails, the error text is recorded
  and the log and the session identifier keep their values. In both cases \<open>isLoading\<close> is
  false at the end and no exception leaves the operation. In every state on the way, from
  whatever store the continuation starts, the log is either the one found or exactly the
  page's messages, never a mixture; between the first two calls the loaded log stands
  under the previous identifier.
\<close>

theorem loadSession_replaces_or_keeps:
  "loadSession_start sessionId s =
     s\<lparr>isLoading := True, error := None,
       network := network s @ [GetChatHistory sessionId 50 0]\<rparr>
   \<and> messages (loadSession_start sessionId s) = messages s
   \<and> currentSessionId (loadSession_start sessionId s) = currentSessionId s
   \<and> fst (loadSession_calls sessionId outcome) = None
   \<and> states_after (snd (loadSession_calls sessionId (Inr history))) s' =
       [s'\<lparr>messages := hist_messages history\<rparr>,
        s'\<lparr>messages := hist_messages history, currentSessionId := sessionId\<rparr>,
        s'\<lparr>messages := hist_messages history, currentSessionId := sessionId,
           isLoading := False\<rparr>]
   \<and> states_after (snd (loadSession_calls sessionId (Inl e))) s' =
       [s'\<lparr>error := Some (errorMessage_of (ascii ''Failed to load chat history'') e)\<rparr>,
        s'\<lparr>error := Some (errorMessage_of (ascii ''Failed to load chat history'') e),
           isLoading := False\<rparr>]
   \<and> (\<forall>t\<in>set (states_after (snd (loadSession_calls sessionId outcome)) s').
        messages t = messages s'
        \<or> (\<exists>page. outcome = Inr page \<and> messages t = hist_messages page))
   \<and> loadSession sessionId (Inr history) s =
     (None, s\<lparr>messages := hist_messages history, currentSessionId := sessionId,
              isLoading := False, error := None,
              network := network s @ [GetChatHistory sessionId 50 0]\<rparr>)
   \<and> loadSession sessionId (Inl e) s =
     (None, s\<lparr>isLoading := False,
              error := Some (errorMessage_of (ascii ''Failed to load chat history'') e),
              network := network s @ [GetChatHistory sessionId 50 0]\<rparr>)"
proof -
  have nothrow: "fst (loadSession_calls sessionId outcome) = None"
    by (cases outcome) (simp_all add: loadSession_calls_success loadSession_calls_failure)
  have ok: "states_after (snd (loadSession_calls sessionId (Inr history))) s' =
       [s'\<lparr>messages := hist_messages history\<rparr>,
        s'\<lparr>messages := hist_messages history, currentSessionId := sessionId\<rparr>,
        s'\<lparr>messages := hist_messages history, currentSessionId := sessionId,
           isLoading := False\<rparr>]" for history
    by (simp add: loadSession_calls_success)
  have ko: "states_after (snd (loadSession_calls sessionId (Inl e))) s' =
       [s'\<lparr>error := Some (errorMessage_of (ascii ''Failed to load chat history'') e)\<rparr>,
        s'\<lparr>error := Some (errorMessage_of (ascii ''Failed to load chat history'') e),
           isLoading := False\<rparr>]" for e
    by (simp add: loadSession_calls_failure)
  have unmixed: "\<forall>t\<in>set (states_after (snd (loadSession_calls sessionId outcome)) s').
        messages t = messages s'
        \<or> (\<exists>page. outcome = Inr page \<and> messages t = hist_messages page)"
  proof (cases outcome)
    case (Inl x)
    then show ?thesis by (simp add: ko)
  next
    case (Inr page)
    then show ?thesis by (simp add: ok)
  qed
  have start: "loadSession_start sessionId s =
     s\<lparr>isLoading := True, error := None,
       network := network s @ [GetChatHistory sessionId 50 0]\<rparr>
   \<and> messages (loadSession_start sessionId s) = messages s
   \<and> currentSessionId (loadSession_start sessionId s) = currentSessionId s"
    by (simp add: loadSession_start_def)
  from start nothrow ok ko unmixed loadSession_success loadSession_failure
  show ?thesis by simp
qed

theorem loadSession_replaces_or_keeps_witness:
  "isLoading (loadSession_start (ascii ''s2'') failed_store)
   \<and> messages (loadSession_start (ascii ''s2'') failed_store) = messages failed_store
   \<and> map messages (states_after (snd (loadSession_calls (ascii ''s2'') (Inr history1)))
        (loadSession_start (ascii ''s2'') failed_store))
       = [hist_messages history1, hist_messages history1, hist_messages history1]
   \<and> map currentSessionId (states_after (snd (loadSession_calls (ascii ''s2'') (Inr history1)))
        (loadSession_start (ascii ''s2'') failed_store))
       = [ascii ''s1'', ascii ''s2'', ascii ''s2'']
   \<and> messages (snd (loadSession (ascii ''s2'') (Inr history1) failed_store))
       = [userMessage clock1 (ascii ''Hi''), assistantMessage reply1]
   \<and> currentSessionId (snd (loadSession (ascii ''s2'') (Inr history1) failed_store)) = ascii ''s2''
   \<and> \<not> isLoading (snd (loadSession (ascii ''s2'') (Inr history1) failed_store))
   \<and> messages (snd (loadSession (ascii ''s2'') (Inl (Error (ascii ''Session not found''))) failed_store))
       = messages failed_store
   \<and> currentSessionId (snd (loadSession (ascii ''s2'') (Inl (Error (ascii ''Session not found'')))
        failed_store)) = ascii ''s1''
   \<and> error (snd (loadSession (ascii ''s2'') (Inl (Error (ascii ''Session not found''))) failed_store))
       = Some (ascii ''Session not found'')
   \<and> \<not> isLoading (snd (loadSession (ascii ''s2'') (Inl (Error (ascii ''Session not found'')))
        failed_store))
   \<and> map error (states_after (snd (loadSession_calls (ascii ''s2'') (Inl NonError)))
        (loadSession_start (ascii ''s2'') failed_store))
       = [Some (ascii ''Failed to load chat history''), Some (ascii ''Failed to load chat history'')]"
proof -
  let ?s1 = "loadSession_start (ascii ''s2'') failed_store"
  let ?x = "Error (ascii ''Session not found'')"
  note t1 = loadSession_replaces_or_keeps
    [of "ascii ''s2''" failed_store "Inr history1" history1 ?s1 ?x]
  note t2 = loadSession_replaces_or_keeps
    [of "ascii ''s2''" failed_store "Inl NonError" history1 ?s1 NonError]
  note start = t1 [THEN conjunct1]
  note ok = t1 [THEN conjunct2, THEN conjunct2, THEN conjunct2, THEN conjunct2, THEN conjunct1]
  note good = t1 [THEN conjunct2, THEN conjunct2, THEN conjunct2, THEN conjunct2, THEN conjunct2, THEN conjunct2, THEN conjunct2, THEN conjunct1]
  note bad = t1 [THEN conjunct2, THEN conjunct2, THEN conjunct2, THEN conjunct2, THEN conjunct2, THEN conjunct2, THEN conjunct2, THEN conjunct2]
  note ko = t2 [THEN conjunct2, THEN conjunct2, THEN conjunct2, THEN conjunct2, THEN conjunct2, THEN conjunct1]
  have cur: "currentSessionId ?s1 = ascii ''s1''"
    by (simp add: loadSession_start_def failed_store_fields)
  have 1: "isLoading ?s1" and 2: "messages ?s1 = messages failed_store"
    by (simp_all add: start)
  have 3: "map messages (states_after (snd (loadSession_calls (ascii ''s2'') (Inr history1))) ?s1)
       = [hist_messages history1, hist_messages history1, hist_messages history1]"
    unfolding ok by simp
  have 4: "map currentSessionId
        (states_after (snd (loadSession_calls (ascii ''s2'') (Inr history1))) ?s1)
       = [ascii ''s1'', ascii ''s2'', ascii ''s2'']"
    unfolding ok using cur by simp
  have 5: "messages (snd (loadSession (ascii ''s2'') (Inr history1) failed_store))
       = [userMessage clock1 (ascii ''Hi''), assistantMessage reply1]"
    "currentSessionId (snd (loadSession (ascii ''s2'') (Inr history1) failed_store)) = ascii ''s2''"
    "\<not> isLoading (snd (loadSession (ascii ''s2'') (Inr history1) failed_store))"
    unfolding good by (simp_all add: history1_def)
  have 6: "messages (snd (loadSession (ascii ''s2'') (Inl ?x) failed_store)) = messages failed_store"
    "currentSessionId (snd (loadSession (ascii ''s2'') (Inl ?x) failed_store)) = ascii ''s1''"
    "error (snd (loadSession (ascii ''s2'') (Inl ?x) failed_store))
       = Some (ascii ''Session not found'')"
    "\<not> isLoading (snd (loadSession (ascii ''s2'') (Inl ?x) failed_store))"
    unfolding bad by (simp_all add: errorMessage_of_def failed_store_fields)
  have 7: "map error (states_after (snd (loadSession_calls (ascii ''s2'') (Inl NonError))) ?s1)
       = [Some (ascii ''Failed to load chat history''), Some (ascii ''Failed to load chat history'')]"
    unfolding ko by (simp add: errorMessage_of_def)
  from 1 2 3 4 5 6 7 show ?thesis
    by simp
qed

section \<open>Deleting a session from the directory\<close>

lemma deleteSession_failure:
  "deleteSession sessionId (Inl e) s =
     (None, s\<lparr>history_error := Some (errorMessage_of (ascii ''Failed to delete session'') e),
              history_network := history_network s @ [DeleteChatSession sessionId]\<rparr>)"
  by (simp add: deleteSession_def deleteSession_settle_def deleteSession_try_def
      deleteSession_catch_def deleteSession_start_def)

lemma deleteSession_success:
  "deleteSession sessionId (Inr u) s =
     (None, s\<lparr>sessions := filter (\<lambda>session. session_id session \<noteq> sessionId) (sessions s),
              history_network := history_network s @ [DeleteChatSession sessionId]\<rparr>)"
  by (simp add: deleteSession_def deleteSession_settle_def deleteSession_try_def
      deleteSession_start_def)

text \<open>
  Claim C8. \<open>deleteSession\<close> changes nothing in the directory before the remote delete has
  settled. When the delete fails, the list of sessions is exactly as it was and the error
  is set; only when it succeeds are the entries with that identifier removed.
\<close>

theorem deleteSession_after_remote_success:
  "deleteSession_start sessionId s =
     s\<lparr>history_network := history_network s @ [DeleteChatSession sessionId]\<rparr>
   \<and> sessions (deleteSession_start sessionId s) = sessions s
   \<and> deleteSession sessionId (Inl e) s =
     (None, s\<lparr>history_error := Some (errorMessage_of (ascii ''Failed to delete session'') e),
              history_network := history_network s @ [DeleteChatSession sessionId]\<rparr>)
   \<and> deleteSession sessionId (Inr u) s =
     (None, s\<lparr>sessions := filter (\<lambda>session. session_id session \<noteq> sessionId) (sessions s),
              history_network := history_network s @ [DeleteChatSession sessionId]\<rparr>)"
  using deleteSession_failure deleteSession_success
  by (simp add: deleteSession_start_def)

theorem deleteSession_after_remote_success_witness:
  "sessions (snd (deleteSession (ascii ''s1'') (Inl (Error (ascii ''Server error''))) directory1))
     = sessions directory1
   \<and> map session_id (sessions directory1) = [ascii ''s1'', ascii ''s2'']
   \<and> history_error (snd (deleteSession (ascii ''s1'') (Inl (Error (ascii ''Server error''))) directory1))
     = Some (ascii ''Server error'')
   \<and> map session_id (sessions (snd (deleteSession (ascii ''s1'') (Inr ()) directory1)))
     = [ascii ''s2'']"
  using deleteSession_after_remote_success
    [of "ascii ''s1''" directory1 "Error (ascii ''Server error'')" "()"]
  by (simp add: directory1_def errorMessage_of_def ascii_def)

section \<open>The retained input across session switches\<close>

lemma lastMessageRef_clearChat: "lastMessageRef (clearChat s) = lastMessageRef s"
  by (simp add: clearChat_def)

lemma lastMessageRef_startNewChat: "lastMessageRef (startNewChat t rnd s) = lastMessageRef s"
  by (simp add: startNewChat_def)

lemma lastMessageRef_loadSession:
  "lastMessageRef (snd (loadSession sessionId outcome s)) = lastMessageRef s"
  by (cases outcome) (simp_all add: loadSession_success loadSession_failure)

lemma sendMessage_accepted:
  assumes "\<not> captured_isLoading k" and "truthy (trim m)"
  shows "snd (sendMessage k c1 c2 m outcome s) =
     s\<lparr>lastMessageRef := m, isLoading := False,
       error := (case outcome of Inr r \<Rightarrow> None
                 | Inl x \<Rightarrow> Some (errorMessage_of (ascii ''Failed to send message'') x)),
       messages := messages s @ [userMessage c1 m, reply_turn c2 outcome],
       network := network s @
         [PostChatMessage \<lparr>req_message = m,
            req_session_id = Some (captured_currentSessionId k)\<rparr>]\<rparr>"
  using assms
  by (cases outcome)
    (simp_all add: sendMessage_def sendMessage_settle_success sendMessage_settle_failure
      sendMessage_start_def reply_turn_def)

text \<open>
  Claim C10. \<open>clearChat\<close>, \<open>startNewChat\<close> and \<open>loadSession\<close> (at its start and at its
  end, whatever the outcome) leave \<open>lastMessageRef\<close> as it is. Hence a retry, through the
  callback of the render that follows the switch, right after
  a new chat was started sends the previous session's last input under the new session
  identifier and makes it the first turn of the new log; a retry right after another
  session was loaded sends it under the loaded session's identifier and appends it to the
  loaded history (cleaned of error turns).
\<close>

theorem lastMessageRef_survives_session_switch:
  "lastMessageRef (clearChat s) = lastMessageRef s
   \<and> lastMessageRef (startNewChat t rnd s) = lastMessageRef s
   \<and> lastMessageRef (loadSession_start sessionId s) = lastMessageRef s
   \<and> lastMessageRef (snd (loadSession sessionId h s)) = lastMessageRef s
   \<and> (\<not> isLoading s \<and> truthy (trim (lastMessageRef s)) \<longrightarrow>
        messages (snd (retryLastMessage (render (startNewChat t rnd s)) c1 c2 outcome
          (startNewChat t rnd s)))
          = [userMessage c1 (lastMessageRef s), reply_turn c2 outcome]
        \<and> network (snd (retryLastMessage (render (startNewChat t rnd s)) c1 c2 outcome
          (startNewChat t rnd s)))
          = network s @ [PostChatMessage \<lparr>req_message = lastMessageRef s,
                            req_session_id = Some (generateSessionId t rnd)\<rparr>])
   \<and> (truthy (trim (lastMessageRef s)) \<longrightarrow>
        messages (snd (retryLastMessage (render (snd (loadSession sessionId (Inr history) s))) c1 c2 outcome
          (snd (loadSession sessionId (Inr history) s))))
          = filter (\<lambda>m. \<not> isErrorTurn m) (hist_messages history)
              @ [userMessage c1 (lastMessageRef s), reply_turn c2 outcome]
        \<and> network (snd (retryLastMessage (render (snd (loadSession sessionId (Inr history) s))) c1 c2 outcome
          (snd (loadSession sessionId (Inr history) s))))
          = network s @ [GetChatHistory sessionId 50 0,
                         PostChatMessage \<lparr>req_message = lastMessageRef s,
                            req_session_id = Some sessionId\<rparr>])"
proof -
  have new: "messages (snd (retryLastMessage (render (startNewChat t rnd s)) c1 c2 outcome
          (startNewChat t rnd s)))
          = [userMessage c1 (lastMessageRef s), reply_turn c2 outcome]
        \<and> network (snd (retryLastMessage (render (startNewChat t rnd s)) c1 c2 outcome
          (startNewChat t rnd s)))
          = network s @ [PostChatMessage \<lparr>req_message = lastMessageRef s,
                            req_session_id = Some (generateSessionId t rnd)\<rparr>]"
    if a: "\<not> isLoading s \<and> truthy (trim (lastMessageRef s))"
  proof -
    let ?s1 = "removeErrorTurns (startNewChat t rnd s)"
    from a have "truthy (lastMessageRef (startNewChat t rnd s))"
      using truthy_trim_truthy by (simp add: lastMessageRef_startNewChat)
    then have "retryLastMessage (render (startNewChat t rnd s)) c1 c2 outcome
          (startNewChat t rnd s)
        = sendMessage (render (startNewChat t rnd s)) c1 c2 (lastMessageRef s) outcome ?s1"
      by (simp add: retryLastMessage_def lastMessageRef_startNewChat)
    moreover have "\<not> captured_isLoading (render (startNewChat t rnd s))"
      using a by (simp add: startNewChat_def)
    ultimately show ?thesis
      using a sendMessage_accepted
        [of "render (startNewChat t rnd s)" "lastMessageRef s" c1 c2 outcome ?s1]
      by (simp add: removeErrorTurns_def startNewChat_def)
  qed
  have loaded: "messages (snd (retryLastMessage (render (snd (loadSession sessionId (Inr history) s))) c1 c2 outcome
          (snd (loadSession sessionId (Inr history) s))))
          = filter (\<lambda>m. \<not> isErrorTurn m) (hist_messages history)
              @ [userMessage c1 (lastMessageRef s), reply_turn c2 outcome]
        \<and> network (snd (retryLastMessage (render (snd (loadSession sessionId (Inr history) s))) c1 c2 outcome
          (snd (loadSession sessionId (Inr history) s))))
          = network s @ [GetChatHistory sessionId 50 0,
                         PostChatMessage \<lparr>req_message = lastMessageRef s,
                            req_session_id = Some sessionId\<rparr>]"
    if a: "truthy (trim (lastMessageRef s))"
  proof -
    let ?s0 = "snd (loadSession sessionId (Inr history) s)"
    let ?s1 = "removeErrorTurns ?s0"
    from a have "truthy (lastMessageRef ?s0)"
      using truthy_trim_truthy by (simp add: lastMessageRef_loadSession)
    then have "retryLastMessage (render ?s0) c1 c2 outcome ?s0
        = sendMessage (render ?s0) c1 c2 (lastMessageRef s) outcome ?s1"
      by (simp add: retryLastMessage_def lastMessageRef_loadSession)
    moreover have "\<not> captured_isLoading (render ?s0)"
      by (simp add: loadSession_success)
    ultimately show ?thesis
      using a sendMessage_accepted [of "render ?s0" "lastMessageRef s" c1 c2 outcome ?s1]
      by (simp add: removeErrorTurns_def loadSession_success)
  qed
  have "lastMessageRef (loadSession_start sessionId s) = lastMessageRef s"
    by (simp add: loadSession_start_def)
  with new loaded lastMessageRef_clearChat lastMessageRef_startNewChat
    lastMessageRef_loadSession
  show ?thesis by simp
qed

theorem lastMessageRef_survives_session_switch_witness:
  "\<not> isLoading failed_store \<and> truthy (trim (lastMessageRef failed_store))
   \<and> lastMessageRef (startNewChat 1500 (ascii ''abc1234'') failed_store) = question1
   \<and> messages (snd (retryLastMessage
        (render (startNewChat 1500 (ascii ''abc1234'') failed_store)) clock1 clock2 (Inr reply1)
        (startNewChat 1500 (ascii ''abc1234'') failed_store)))
       = [userMessage clock1 question1, assistantMessage reply1]
   \<and> network (snd (retryLastMessage
        (render (startNewChat 1500 (ascii ''abc1234'') failed_store)) clock1 clock2 (Inr reply1)
        (startNewChat 1500 (ascii ''abc1234'') failed_store)))
       = [PostChatMessage \<lparr>req_message = question1, req_session_id = Some (ascii ''s1'')\<rparr>,
          PostChatMessage \<lparr>req_message = question1,
            req_session_id = Some (generateSessionId 1500 (ascii ''abc1234''))\<rparr>]
   \<and> network (snd (retryLastMessage
        (render (snd (loadSession (ascii ''s2'') (Inr history1) failed_store))) clock1 clock2
        (Inr reply1) (snd (loadSession (ascii ''s2'') (Inr history1) failed_store))))
       = [PostChatMessage \<lparr>req_message = question1, req_session_id = Some (ascii ''s1'')\<rparr>,
          GetChatHistory (ascii ''s2'') 50 0,
          PostChatMessage \<lparr>req_message = question1, req_session_id = Some (ascii ''s2'')\<rparr>]"
proof -
  have 1: "\<not> isLoading failed_store"
    by (simp add: failed_store_eq idle_store_def)
  have 2: "lastMessageRef failed_store = question1"
    by (simp add: failed_store_eq)
  have 3: "truthy (trim (lastMessageRef failed_store))"
    using truthy_trim_question1 by (simp add: 2)
  have 4: "network failed_store =
      [PostChatMessage \<lparr>req_message = question1, req_session_id = Some (ascii ''s1'')\<rparr>]"
    by (simp add: failed_store_eq)
  from lastMessageRef_survives_session_switch
    [of failed_store 1500 "ascii ''abc1234''" "ascii ''s2''" "Inr history1" clock1 clock2
      "Inr reply1" history1] 1 2 3 4
  show ?thesis
    by (simp add: reply_turn_def)
qed

section \<open>Starting a new chat\<close>

text \<open>
  Session identifiers are read back uniquely: the decimal digits of the clock contain no
  minus sign, so the first one after them is the separator.
\<close>

lemma unat_digit:
  assumes "d < 10"
  shows "unat (digit d) = 48 + d"
proof -
  have "unat (word_of_nat (48 + d) :: code_unit) = (48 + d) mod 2 ^ LENGTH(16)"
    by (rule unat_of_nat)
  also have "\<dots> = 48 + d"
    using assms by simp
  finally show ?thesis
    by (simp only: digit_def)
qed

lemma digit_inj:
  assumes "d < 10" and "e < 10" and "digit d = digit e"
  shows "d = e"
proof -
  have "48 + d = unat (digit d)"
    using assms(1) by (simp only: unat_digit)
  also have "\<dots> = unat (digit e)"
    by (simp only: assms(3))
  also have "\<dots> = 48 + e"
    using assms(2) by (simp only: unat_digit)
  finally show ?thesis by simp
qed

lemma digit_not_minus: "d < 10 \<Longrightarrow> digit d \<noteq> 0x2D"
proof
  assume d: "d < 10" and eq: "digit d = 0x2D"
  have "48 + d = unat (digit d)"
    using d by (simp only: unat_digit)
  also have "\<dots> = unat (0x2D :: code_unit)"
    by (simp only: eq)
  also have "\<dots> = 45"
    by simp
  finally show False by simp
qed

lemma dec_nat_not_Nil: "dec_nat n \<noteq> []"
  by (subst dec_nat.simps) simp

lemma minus_notin_dec_nat: "0x2D \<notin> set (dec_nat n)"
proof (induction n rule: dec_nat.induct)
  case (1 n)
  show ?case
  proof (cases "n < 10")
    case True
    then show ?thesis
      using digit_not_minus [of n] by (subst dec_nat.simps) auto
  next
    case False
    moreover have "digit (n mod 10) \<noteq> 0x2D"
      by (rule digit_not_minus) simp
    ultimately show ?thesis
      using "1.IH" by (subst dec_nat.simps) auto
  qed
qed

lemma dec_nat_inj: "dec_nat n = dec_nat m \<Longrightarrow> n = m"
proof (induction n arbitrary: m rule: dec_nat.induct)
  case (1 n)
  show ?case
  proof (cases "n < 10")
    case n: True
    show ?thesis
    proof (cases "m < 10")
      case True
      with n "1.prems" show ?thesis
        using digit_inj [of n m] by (simp add: dec_nat.simps [of n] dec_nat.simps [of m])
    next
      case False
      with n "1.prems" show ?thesis
        using dec_nat_not_Nil [of "m div 10"]
        by (simp add: dec_nat.simps [of n] dec_nat.simps [of m])
    qed
  next
    case n: False
    show ?thesis
    proof (cases "m < 10")
      case True
      with n "1.prems" show ?thesis
        using dec_nat_not_Nil [of "n div 10"]
        by (simp add: dec_nat.simps [of n] dec_nat.simps [of m])
    next
      case False
      with n "1.prems" have eq: "dec_nat (n div 10) = dec_nat (m div 10)"
        and d: "digit (n mod 10) = digit (m mod 10)"
        by (simp_all add: dec_nat.simps [of n] dec_nat.simps [of m])
      from "1.IH" [OF n eq] have "n div 10 = m div 10" .
      moreover from d have "n mod 10 = m mod 10"
        by (intro digit_inj) simp_all
      ultimately show ?thesis
        by (metis div_mult_mod_eq)
    qed
  qed
qed

lemma split_at_separator:
  "sep \<notin> set xs \<Longrightarrow> sep \<notin> set ys \<Longrightarrow> xs @ sep # r1 = ys @ sep # r2
   \<Longrightarrow> xs = ys \<and> r1 = r2"
proof (induction xs arbitrary: ys)
  case Nil
  then show ?case by (cases ys) auto
next
  case (Cons x xs)
  then show ?case by (cases ys) auto
qed

lemma dec_int_separator_inj:
  assumes "dec_int a @ 0x2D # r1 = dec_int b @ 0x2D # r2"
  shows "a = b \<and> r1 = r2"
proof -
  have hd_digit: "hd (dec_nat n) \<noteq> 0x2D" for n
    using minus_notin_dec_nat [of n] dec_nat_not_Nil [of n] hd_in_set by metis
  have hd_app: "hd (dec_nat n @ zs) = hd (dec_nat n)" for n zs
    using dec_nat_not_Nil by simp
  consider "a < 0" "b < 0" | "a < 0" "\<not> b < 0" | "\<not> a < 0" "b < 0" | "\<not> a < 0" "\<not> b < 0"
    by blast
  then show ?thesis
  proof cases
    case 1
    with assms have "dec_nat (nat (- a)) @ 0x2D # r1 = dec_nat (nat (- b)) @ 0x2D # r2"
      by (simp add: dec_int_def)
    then have "dec_nat (nat (- a)) = dec_nat (nat (- b)) \<and> r1 = r2"
      by (rule split_at_separator [OF minus_notin_dec_nat minus_notin_dec_nat])
    then have "nat (- a) = nat (- b) \<and> r1 = r2"
      by (simp add: dec_nat_inj)
    with 1 show ?thesis by arith
  next
    case 2
    with assms have "0x2D # dec_nat (nat (- a)) @ 0x2D # r1 = dec_nat (nat b) @ 0x2D # r2"
      by (simp add: dec_int_def)
    then have "hd (dec_nat (nat b) @ 0x2D # r2) = 0x2D"
      by (metis list.sel(1))
    then show ?thesis
      using hd_digit [of "nat b"] hd_app by simp
  next
    case 3
    with assms have "dec_nat (nat a) @ 0x2D # r1 = 0x2D # dec_nat (nat (- b)) @ 0x2D # r2"
      by (simp add: dec_int_def)
    then have "hd (dec_nat (nat a) @ 0x2D # r1) = 0x2D"
      by (metis list.sel(1))
    then show ?thesis
      using hd_digit [of "nat a"] hd_app by simp
  next
    case 4
    with assms have "dec_nat (nat a) @ 0x2D # r1 = dec_nat (nat b) @ 0x2D # r2"
      by (simp add: dec_int_def)
    then have "dec_nat (nat a) = dec_nat (nat b) \<and> r1 = r2"
      by (rule split_at_separator [OF minus_notin_dec_nat minus_notin_dec_nat])
    then have "nat a = nat b \<and> r1 = r2"
      by (simp add: dec_nat_inj)
    with 4 show ?thesis by arith
  qed
qed

lemma generateSessionId_inj:
  "generateSessionId a r1 = generateSessionId b r2 \<longleftrightarrow> a = b \<and> r1 = r2"
proof
  assume "generateSessionId a r1 = generateSessionId b r2"
  then have "dec_int a @ 0x2D # r1 = dec_int b @ 0x2D # r2"
    by (simp add: generateSessionId_def ascii_def)
  then show "a = b \<and> r1 = r2"
    by (rule dec_int_separator_inj)
qed simp

text \<open>
  Claim C7, as stated, fails. \<open>startNewChat\<close> does not touch \<open>isLoading\<close>: started while
  a send is in flight, it leaves the store loading. And the new identifier is whatever
  \<open>generateSessionId\<close> returns: with the same clock reading and the same random suffix as
  for the previous one, it is the previous one.
\<close>

theorem startNewChat_counterexample:
  "isLoading (startNewChat 1500 (ascii ''abc1234'')
      (sendMessage_start (render idle_store) clock1 question1 idle_store))
   \<and> currentSessionId (startNewChat 1500 (ascii ''abc1234'')
        (startNewChat 1500 (ascii ''abc1234'') idle_store))
      = currentSessionId (startNewChat 1500 (ascii ''abc1234'') idle_store)"
  using truthy_trim_question1
  by (simp add: startNewChat_def sendMessage_start_def idle_store_def)

text \<open>
  Claim C7, amended. \<open>startNewChat\<close> empties the log, clears the error and sets the
  session identifier to the generated \<open>session-<clock>-<suffix>\<close>, which equals an
  identifier generated from a clock reading and a suffix exactly when both are the same,
  so it differs from a previous identifier generated at another millisecond or with
  another suffix. It leaves \<open>isLoading\<close> and the retained input as they are and sends
  nothing to the service.
\<close>

theorem startNewChat_fresh_log:
  "messages (startNewChat t rnd s) = []
   \<and> error (startNewChat t rnd s) = None
   \<and> currentSessionId (startNewChat t rnd s) = generateSessionId t rnd
   \<and> (currentSessionId (startNewChat t rnd s) = generateSessionId t0 rnd0
        \<longleftrightarrow> t = t0 \<and> rnd = rnd0)
   \<and> isLoading (startNewChat t rnd s) = isLoading s
   \<and> lastMessageRef (startNewChat t rnd s) = lastMessageRef s
   \<and> network (startNewChat t rnd s) = network s"
  using generateSessionId_inj [of t rnd t0 rnd0]
  by (simp add: startNewChat_def)

theorem startNewChat_fresh_log_witness:
  "messages (startNewChat 1501 (ascii ''abc1234'') stale_store) = []
   \<and> messages stale_store \<noteq> []
   \<and> currentSessionId stale_store = generateSessionId 1500 (ascii ''abc1234'')
   \<and> currentSessionId (startNewChat 1501 (ascii ''abc1234'') stale_store)
       \<noteq> currentSessionId stale_store
   \<and> network (startNewChat 1501 (ascii ''abc1234'') stale_store) = network stale_store"
proof -
  note t = startNewChat_fresh_log
    [of 1501 "ascii ''abc1234''" stale_store 1500 "ascii ''abc1234''"]
  have 1: "currentSessionId stale_store = generateSessionId 1500 (ascii ''abc1234'')"
    and 2: "messages stale_store \<noteq> []"
    by (simp_all add: stale_store_def sendMessage_settle_success startNewChat_def)
  from t [THEN conjunct2, THEN conjunct2, THEN conjunct2, THEN conjunct1]
  have "currentSessionId (startNewChat 1501 (ascii ''abc1234'') stale_store)
      \<noteq> generateSessionId 1500 (ascii ''abc1234'')"
    by simp
  then have 3: "currentSessionId (startNewChat 1501 (ascii ''abc1234'') stale_store)
      \<noteq> currentSessionId stale_store"
    by (simp add: 1)
  from t have 4: "messages (startNewChat 1501 (ascii ''abc1234'') stale_store) = []"
    and 5: "network (startNewChat 1501 (ascii ''abc1234'') stale_store) = network stale_store"
    by simp_all
  from 1 2 3 4 5 show ?thesis
    by blast
qed

section \<open>Auto-scroll\<close>

lemma useAutoScroll_effect_threshold:
  "useAutoScroll_effect True (Some el) =
     Some (if fromBottom el < 100 then scrollTo (scrollHeight el) el else el)"
  by (auto simp: useAutoScroll_effect_def Let_def fromBottom_def)

lemma scrollIntoView_end:
  assumes "scrollHeight el - clientHeight el \<le> y"
  shows "scrollIntoView y el = el\<lparr>scrollTop := max 0 (scrollHeight el - clientHeight el)\<rparr>"
  using assms by (simp add: scrollIntoView_def scrollTo_def min_def)

text \<open>
  Claim C9, as stated, fails. The viewport of the message log is scrolled by the effect of
  \<open>ChatInterface\<close>, which tests nothing: a viewer 400 pixels above the end of the content
  is taken to the end when a turn 40 pixels high is appended (the end marker then lies 16
  pixels, the padding of the list, above the end of the 1040 pixels of content).
\<close>

theorem ChatInterface_scroll_counterexample:
  "fromBottom scrolled_up = 400
   \<and> scrollTop (appended 40 scrolled_up) = 100
   \<and> scrollTop (ChatInterface_scroll_effect (Some 1024) (appended 40 scrolled_up)) = 540
   \<and> fromBottom (ChatInterface_scroll_effect (Some 1024) (appended 40 scrolled_up)) = 0"
  by (simp add: ChatInterface_scroll_effect_def scrollIntoView_def scrollTo_def appended_def
      scrolled_up_def fromBottom_def)

text \<open>
  Claim C9, amended. On every change of the message log or of \<open>isLoading\<close>, the effect of
  \<open>ChatInterface\<close> scrolls the end marker of the list into view, whatever the scroll
  offset was: with the marker attached and lying within one viewport height of the end of
  the content (it is the last element of the list), the viewport ends at the bottom, for
  a viewer who was within 100 pixels of it and for a viewer who was further up alike; the
  result depends on the current metrics only. Nothing moves while the marker is not
  attached. (The test against 100 pixels exists only in \<open>useAutoScroll\<close>, which no
  component calls.)
\<close>

theorem ChatInterface_scrolls_unconditionally:
  "ChatInterface_scroll_effect None el = el
   \<and> (scrollHeight el - clientHeight el \<le> y \<longrightarrow>
        ChatInterface_scroll_effect (Some y) el
          = el\<lparr>scrollTop := max 0 (scrollHeight el - clientHeight el)\<rparr>)
   \<and> (scrollHeight el - clientHeight el \<le> y \<and> clientHeight el \<le> scrollHeight el \<longrightarrow>
        fromBottom (ChatInterface_scroll_effect (Some y) el) = 0)
   \<and> (scrollHeight el - clientHeight el \<le> y \<and> clientHeight el \<le> scrollHeight el
        \<and> 0 \<le> h \<longrightarrow>
        fromBottom (ChatInterface_scroll_effect (Some (y + h)) (appended h el)) = 0)"
proof -
  have a: "ChatInterface_scroll_effect (Some y) el
          = el\<lparr>scrollTop := max 0 (scrollHeight el - clientHeight el)\<rparr>"
    if "scrollHeight el - clientHeight el \<le> y" for y el
    using that by (simp add: ChatInterface_scroll_effect_def scrollIntoView_end)
  have b: "fromBottom (ChatInterface_scroll_effect (Some y) el) = 0"
    if "scrollHeight el - clientHeight el \<le> y \<and> clientHeight el \<le> scrollHeight el" for y el
    using that by (simp add: a fromBottom_def)
  have c: "fromBottom (ChatInterface_scroll_effect (Some (y + h)) (appended h el)) = 0"
    if "scrollHeight el - clientHeight el \<le> y \<and> clientHeight el \<le> scrollHeight el \<and> 0 \<le> h"
    using that by (intro b) (simp add: appended_def)
  have "ChatInterface_scroll_effect None el = el"
    by (simp add: ChatInterface_scroll_effect_def)
  with a [of el y] b [of el y] c show ?thesis
    by simp
qed

theorem ChatInterface_scrolls_unconditionally_witness:
  "scrollHeight scrolled_up - clientHeight scrolled_up \<le> 984
   \<and> clientHeight scrolled_up \<le> scrollHeight scrolled_up \<and> (0 :: real) \<le> 40
   \<and> fromBottom scrolled_up > 100
   \<and> fromBottom (ChatInterface_scroll_effect (Some (984 + 40)) (appended 40 scrolled_up)) = 0
   \<and> scrollHeight at_bottom - clientHeight at_bottom \<le> 984
   \<and> clientHeight at_bottom \<le> scrollHeight at_bottom
   \<and> fromBottom at_bottom \<le> 100
   \<and> fromBottom (ChatInterface_scroll_effect (Some (984 + 40)) (appended 40 at_bottom)) = 0
   \<and> ChatInterface_scroll_effect (Some 984) scrolled_up = at_bottom
   \<and> ChatInterface_scroll_effect None scrolled_up = scrolled_up"
proof -
  note t1 = ChatInterface_scrolls_unconditionally [of scrolled_up 984 40]
  note t2 = ChatInterface_scrolls_unconditionally [of at_bottom 984 40]
  have 1: "scrollHeight scrolled_up - clientHeight scrolled_up \<le> 984"
    "clientHeight scrolled_up \<le> scrollHeight scrolled_up" "fromBottom scrolled_up > 100"
    by (simp_all add: scrolled_up_def fromBottom_def)
  have 2: "scrollHeight at_bottom - clientHeight at_bottom \<le> 984"
    "clientHeight at_bottom \<le> scrollHeight at_bottom" "fromBottom at_bottom \<le> 100"
    by (simp_all add: at_bottom_def fromBottom_def)
  from t1 1 have 3:
    "fromBottom (ChatInterface_scroll_effect (Some (984 + 40)) (appended 40 scrolled_up)) = 0"
    by simp
  from t2 2 have 4:
    "fromBottom (ChatInterface_scroll_effect (Some (984 + 40)) (appended 40 at_bottom)) = 0"
    by simp
  from t1 1 have "ChatInterface_scroll_effect (Some 984) scrolled_up
      = scrolled_up\<lparr>scrollTop := max 0 (scrollHeight scrolled_up - clientHeight scrolled_up)\<rparr>"
    by simp
  then have 5: "ChatInterface_scroll_effect (Some 984) scrolled_up = at_bottom"
    by (simp add: scrolled_up_def at_bottom_def)
  from t1 have 6: "ChatInterface_scroll_effect None scrolled_up = scrolled_up"
    by simp
  from 1 2 3 4 5 6 show ?thesis
    by simp
qed

end
